theory Spec2Isabelle
  imports Main "HOL-Library.Word" "HOL-Library.Sublist"
begin

section \<open>Strings\<close>

text \<open>
  A JavaScript string is a sequence of UTF-16 code units; \<open>===\<close>, \<open>startsWith\<close>,
  \<open>split\<close>, \<open>join\<close> and a regular expression without the \<open>u\<close> flag all work on code
  units. The literals of \<open>scripts/enforce.ts\<close> are ASCII, so each is written as an
  Isabelle string and lifted by \<open>js\<close>.
\<close>

type_synonym jschar = "16 word"
type_synonym jsstring = "jschar list"

definition js :: "string \<Rightarrow> jsstring" where
  "js s = map of_char s"

text \<open>The characters that cannot be typed inside an Isabelle string literal.\<close>

definition apos :: jsstring where "apos = [0x27]"
definition dquote :: jsstring where "dquote = [0x22]"
definition newline :: jschar where "newline = 0x0A"

text \<open>
  JavaScript truthiness of a value of type \<open>string | undefined\<close>: \<open>undefined\<close> and the
  empty string are falsy, every other string is truthy.
\<close>

fun truthy :: "jsstring option \<Rightarrow> bool" where
  "truthy None = False"
| "truthy (Some s) = (s \<noteq> [])"

text \<open>\<open>Array.prototype.join\<close> on an array of strings.\<close>

fun join_with :: "jsstring \<Rightarrow> jsstring list \<Rightarrow> jsstring" where
  "join_with sep [] = []"
| "join_with sep [x] = x"
| "join_with sep (x # y # ys) = x @ sep @ join_with sep (y # ys)"

text \<open>
  \<open>String.prototype.split\<close> with a separator of one code unit: the pieces between the
  separators, empty pieces included; the empty string splits into one empty piece.
\<close>

fun split_on :: "jschar \<Rightarrow> jsstring \<Rightarrow> jsstring list" where
  "split_on sep [] = [[]]"
| "split_on sep (c # cs) =
     (if c = sep then [] # split_on sep cs
      else (case split_on sep cs of
              [] \<Rightarrow> [[c]]
            | p # ps \<Rightarrow> (c # p) # ps))"

text \<open>\<open>[a, b].filter(Boolean)\<close> on values of type \<open>string | undefined\<close>.\<close>

fun filter_Boolean :: "jsstring option list \<Rightarrow> jsstring list" where
  "filter_Boolean [] = []"
| "filter_Boolean (None # xs) = filter_Boolean xs"
| "filter_Boolean (Some s # xs) = (if s = [] then filter_Boolean xs else s # filter_Boolean xs)"

section \<open>Regular expressions\<close>

text \<open>
  The fragment of ECMAScript regular expressions that \<open>INTERCEPT_PATTERNS\<close> uses: the
  assertion \<open>^\<close> (without the \<open>m\<close> flag: start of input only), literal characters,
  \<open>\s+\<close>, concatenation and alternation.
\<close>

datatype regex =
    RBol
  | RLit jsstring
  | RSpaces
  | RSeq regex regex
  | RAlt "regex list"

text \<open>
  The class \<open>\s\<close>: WhiteSpace (TAB, VT, FF, ZWNBSP and the Unicode space separators)
  and LineTerminator (LF, CR, LS, PS).
\<close>

definition isWhiteSpace :: "jschar \<Rightarrow> bool" where
  "isWhiteSpace c \<longleftrightarrow>
     c \<in> set [0x09, 0x0A, 0x0B, 0x0C, 0x0D, 0x20, 0xA0, 0x1680,
              0x2028, 0x2029, 0x202F, 0x205F, 0x3000, 0xFEFF]
     \<or> (0x2000 \<le> c \<and> c \<le> 0x200A)"

text \<open>
  A backtracking matcher: \<open>rmatch r s i\<close> lists the end positions of the matches of \<open>r\<close>
  in the input \<open>s\<close> that start at position \<open>i\<close>, the preferred one first (\<open>\s+\<close> is
  greedy, alternatives are tried left to right).
\<close>

fun rmatch :: "regex \<Rightarrow> jsstring \<Rightarrow> nat \<Rightarrow> nat list" where
  "rmatch RBol s i = (if i = 0 then [i] else [])"
| "rmatch (RLit l) s i = (if prefix l (drop i s) then [i + length l] else [])"
| "rmatch RSpaces s i =
     (let n = length (takeWhile isWhiteSpace (drop i s))
      in rev (map (\<lambda>k. i + k) [1..<Suc n]))"
| "rmatch (RSeq a b) s i = concat (map (rmatch b s) (rmatch a s i))"
| "rmatch (RAlt rs) s i = concat (map (\<lambda>r. rmatch r s i) rs)"

text \<open>
  \<open>RegExp.prototype.test\<close> for a pattern without the \<open>g\<close> and \<open>y\<close> flags: is there a
  match starting at some position of the input.
\<close>

definition test :: "regex \<Rightarrow> jsstring \<Rightarrow> bool" where
  "test r s = list_ex (\<lambda>i. rmatch r s i \<noteq> []) [0..<Suc (length s)]"

section \<open>Configuration\<close>

datatype tool = Npm | Npx | Yarn | Pnpm | Node | Tsx | Bun

text \<open>
  \<open>interface DockerConfig\<close>: every field is optional. \<open>enforcement\<close> is kept as the
  string it is at run time, so that the \<open>default\<close> branch of the switch in \<open>enforce\<close>
  is part of the model. \<open>interceptPatterns\<close> is the object's entry list (what
  \<open>Object.entries\<close> enumerates), its keys being the seven of the interface.
\<close>

record DockerConfig =
  containerName :: "jsstring option"
  enforcement :: "jsstring option"
  allowedHostCommands :: "jsstring list option"
  interceptPatterns :: "(tool \<times> bool) list option"

definition DEFAULT_CONFIG :: DockerConfig where
  "DEFAULT_CONFIG =
     \<lparr> containerName = None,
       enforcement = Some (js ''block''),
       allowedHostCommands = Some [],
       interceptPatterns = Some
         [(Npm, True), (Npx, True), (Yarn, True), (Pnpm, True),
          (Node, True), (Tsx, True), (Bun, True)] \<rparr>"

definition words_alt :: "string list \<Rightarrow> regex" where
  "words_alt ws = RAlt (map (\<lambda>w. RLit (js w)) ws)"

fun INTERCEPT_PATTERNS :: "tool \<Rightarrow> regex" where
  "INTERCEPT_PATTERNS Npm =
     RSeq RBol (RSeq (RLit (js ''npm'')) (RSeq RSpaces
       (words_alt [''install'', ''ci'', ''run'', ''test'', ''exec'', ''start'', ''build''])))"
| "INTERCEPT_PATTERNS Npx = RSeq RBol (RSeq (RLit (js ''npx'')) RSpaces)"
| "INTERCEPT_PATTERNS Yarn =
     RSeq RBol (RSeq (RLit (js ''yarn'')) (RSeq RSpaces
       (words_alt [''add'', ''install'', ''run'', ''start'', ''build''])))"
| "INTERCEPT_PATTERNS Pnpm =
     RSeq RBol (RSeq (RLit (js ''pnpm'')) (RSeq RSpaces
       (words_alt [''add'', ''install'', ''run'', ''start'', ''build''])))"
| "INTERCEPT_PATTERNS Node = RSeq RBol (RSeq (RLit (js ''node'')) RSpaces)"
| "INTERCEPT_PATTERNS Tsx = RSeq RBol (RSeq (RLit (js ''tsx'')) RSpaces)"
| "INTERCEPT_PATTERNS Bun =
     RSeq RBol (RSeq (RLit (js ''bun'')) (RSeq RSpaces
       (words_alt [''run'', ''install'', ''add''])))"

text \<open>ANSI color codes.\<close>

definition red :: jsstring where "red = 0x1B # js ''[31m''"
definition yellow :: jsstring where "yellow = 0x1B # js ''[33m''"
definition green :: jsstring where "green = 0x1B # js ''[32m''"
definition blue :: jsstring where "blue = 0x1B # js ''[34m''"
definition reset :: jsstring where "reset = 0x1B # js ''[0m''"

section \<open>The environment\<close>

text \<open>
  What the program reads from outside itself. \<open>configFile\<close> gives, for a path, the
  outcome of \<open>existsSync\<close>, \<open>readFileSync\<close> and \<open>JSON.parse\<close> there: no file, a file
  whose reading or parsing throws, or a parsed object (taken to have the shape of the
  interface it is cast to). \<open>dockerPs\<close> is the outcome of
  \<open>execSync("docker ps --format '{{.Names}}'")\<close>: its standard output, or \<open>None\<close> when
  the call throws (the runtime is missing, the exit status is not zero).
  \<open>pathJoin\<close> is \<open>path.join\<close> and \<open>cwd\<close> is \<open>process.cwd()\<close>.
\<close>

datatype config_file = Missing | Unparseable | Parsed DockerConfig

record env =
  cwd :: jsstring
  pathJoin :: "jsstring list \<Rightarrow> jsstring"
  configFile :: "jsstring \<Rightarrow> config_file"
  dockerPs :: "jsstring option"

section \<open>The functions of \<open>scripts/enforce.ts\<close>\<close>

text \<open>
  Every function that writes to standard error returns the lines it wrote, one list
  entry for each \<open>console.error\<close> call, next to its result.
\<close>

text \<open>The object spread \<open>{ ...DEFAULT_CONFIG, ...config }\<close>.\<close>

definition spread :: "DockerConfig \<Rightarrow> DockerConfig \<Rightarrow> DockerConfig" where
  "spread d c =
     \<lparr> containerName = (case containerName c of Some v \<Rightarrow> Some v | None \<Rightarrow> containerName d),
       enforcement = (case enforcement c of Some v \<Rightarrow> Some v | None \<Rightarrow> enforcement d),
       allowedHostCommands =
         (case allowedHostCommands c of Some v \<Rightarrow> Some v | None \<Rightarrow> allowedHostCommands d),
       interceptPatterns =
         (case interceptPatterns c of Some v \<Rightarrow> Some v | None \<Rightarrow> interceptPatterns d) \<rparr>"

definition loadConfig :: "env \<Rightarrow> jsstring option \<Rightarrow> jsstring list \<times> DockerConfig" where
  "loadConfig e projectPathArg =
     (let projectPath = (case projectPathArg of Some p \<Rightarrow> p | None \<Rightarrow> cwd e);
          configPath = pathJoin e [projectPath, js ''.claude'', js ''docker-config.json'']
      in case configFile e configPath of
           Missing \<Rightarrow> ([], DEFAULT_CONFIG)
         | Parsed config \<Rightarrow> ([], spread DEFAULT_CONFIG config)
         | Unparseable \<Rightarrow>
             ([yellow @ js ''Warning: Could not parse '' @ configPath @ reset],
              DEFAULT_CONFIG))"

fun intercept_loop :: "jsstring \<Rightarrow> (tool \<times> bool) list \<Rightarrow> bool" where
  "intercept_loop command [] = False"
| "intercept_loop command ((tool, enabled) # rest) =
     (if enabled \<and> test (INTERCEPT_PATTERNS tool) command then True
      else intercept_loop command rest)"

definition shouldIntercept :: "jsstring \<Rightarrow> DockerConfig \<Rightarrow> bool" where
  "shouldIntercept command config =
     (let patterns = (case interceptPatterns config of
                        Some p \<Rightarrow> p
                      | None \<Rightarrow> the (interceptPatterns DEFAULT_CONFIG))
      in intercept_loop command patterns)"

fun allowed_loop :: "jsstring \<Rightarrow> jsstring list \<Rightarrow> bool" where
  "allowed_loop command [] = False"
| "allowed_loop command (allowedCmd # rest) =
     (if command = allowedCmd \<or> prefix (allowedCmd @ js '' '') command then True
      else allowed_loop command rest)"

definition isAllowed :: "jsstring \<Rightarrow> DockerConfig \<Rightarrow> bool" where
  "isAllowed command config =
     (let allowed = (case allowedHostCommands config of Some a \<Rightarrow> a | None \<Rightarrow> [])
      in allowed_loop command allowed)"

definition isContainerRunning :: "env \<Rightarrow> jsstring \<Rightarrow> bool" where
  "isContainerRunning e name =
     (case dockerPs e of
        Some output \<Rightarrow> name \<in> set (split_on newline output)
      | None \<Rightarrow> False)"

definition showBlockMessage :: "jsstring \<Rightarrow> jsstring option \<Rightarrow> jsstring list" where
  "showBlockMessage command name =
     [red @ js ''ERROR: Docker-first policy violation detected!'' @ reset,
      [],
      js ''Command: '' @ blue @ command @ reset,
      js ''Reason:  Package manager commands must run inside Docker'',
      []]
     @ (if truthy name
        then [js ''Suggested command:'',
              js ''  '' @ green @ js ''docker exec '' @ the name @ js '' '' @ command @ reset]
        else [js ''Configure containerName in .claude/docker-config.json first''])
     @ [[],
        js ''To allow this command on host, add to .claude/docker-config.json:'',
        js ''  '' @ dquote @ js ''allowedHostCommands'' @ dquote @ js '': ['' @ dquote
          @ command @ dquote @ js '']'']"

definition showWarning :: "jsstring \<Rightarrow> jsstring option \<Rightarrow> jsstring list" where
  "showWarning command name =
     [yellow @ js ''WARNING: Running package manager on host instead of Docker'' @ reset]
     @ (if truthy name
        then [js ''Recommended: '' @ green @ js ''docker exec '' @ the name @ js '' ''
                @ command @ reset]
        else [])
     @ [js ''Proceeding anyway...'']"

datatype action = Allow | Block | Warn | Transform

record EnforceResult =
  action :: action
  message :: "jsstring option"
  transformedCommand :: "jsstring option"

definition result :: "action \<Rightarrow> jsstring option \<Rightarrow> jsstring option \<Rightarrow> EnforceResult" where
  "result a m t = \<lparr> action = a, message = m, transformedCommand = t \<rparr>"

definition enforce :: "env \<Rightarrow> jsstring \<Rightarrow> jsstring option \<Rightarrow> jsstring list \<times> EnforceResult"
  where
  "enforce e command projectPath =
     (let (warned, config) = loadConfig e projectPath
      in if enforcement config = Some (js ''disabled'') then (warned, result Allow None None)
         else if \<not> shouldIntercept command config then (warned, result Allow None None)
         else if isAllowed command config then (warned, result Allow None None)
         else
           let name = containerName config
           in if enforcement config = Some (js ''block'') then
                (warned @ showBlockMessage command name,
                 result Block (Some (js ''Docker-first policy violation'')) None)
              else if enforcement config = Some (js ''warn'') then
                (warned @ showWarning command name, result Warn None None)
              else if enforcement config = Some (js ''transform'') then
                (if \<not> truthy name then
                   (warned @ [red @ js ''ERROR: Cannot transform - no containerName configured''
                                @ reset],
                    result Block (Some (js ''No container configured'')) None)
                 else if \<not> isContainerRunning e (the name) then
                   (warned @ [red @ js ''ERROR: Container '' @ apos @ the name @ apos
                                @ js '' is not running'' @ reset,
                              js ''Start it with: '' @ green @ js ''docker compose up -d''
                                @ reset],
                    result Block (Some (js ''Container not running'')) None)
                 else
                   let transformed = js ''docker exec '' @ the name @ js '' '' @ command
                   in (warned @ [blue @ js ''Transforming to:'' @ reset @ js '' '' @ transformed],
                       result Transform None (Some transformed)))
              else (warned, result Allow None None))"

section \<open>The command line\<close>

text \<open>
  A run of the process: the lines written by \<open>console.log\<close>, the lines written by
  \<open>console.error\<close>, and the exit code (the argument of \<open>process.exit\<close>, or 0 when
  \<open>main\<close> returns).
\<close>

record run =
  stdout :: "jsstring list"
  stderr :: "jsstring list"
  exitCode :: nat

definition exit_with :: "jsstring list \<Rightarrow> jsstring list \<Rightarrow> nat \<Rightarrow> run" where
  "exit_with out err code = \<lparr> stdout = out, stderr = err, exitCode = code \<rparr>"

definition main :: "env \<Rightarrow> jsstring list \<Rightarrow> run" where
  "main e argv =
     (let args = drop 2 argv;
          act = (case args of [] \<Rightarrow> None | a # _ \<Rightarrow> Some a);
          command = join_with (js '' '') (drop 1 args)
      in if act = Some (js ''check'') then
           (if command = [] then exit_with [] [js ''Usage: enforce.ts check <command>''] 1
            else
              let (warned, config) = loadConfig e None
              in if shouldIntercept command config \<and> \<not> isAllowed command config
                 then exit_with [js ''WOULD_BLOCK: '' @ command] warned 1
                 else exit_with [js ''ALLOWED: '' @ command] warned 0)
         else if act = Some (js ''validate'') then
           (let (warned, config) = loadConfig e None
            in if \<not> truthy (containerName config)
               then exit_with [js ''ERROR: No container configured''] warned 1
               else if isContainerRunning e (the (containerName config))
               then exit_with [js ''OK: Container '' @ apos @ the (containerName config) @ apos
                                 @ js '' is running''] warned 0
               else exit_with [js ''ERROR: Container '' @ apos @ the (containerName config) @ apos
                                 @ js '' is not running''] warned 1)
         else if act = Some (js ''transform'') then
           (if command = [] then exit_with [] [js ''Usage: enforce.ts transform <command>''] 1
            else
              let (warned, config) = loadConfig e None
              in if truthy (containerName config)
                 then exit_with [js ''docker exec '' @ the (containerName config) @ js '' ''
                                   @ command] warned 0
                 else exit_with [] (warned @ [js ''ERROR: No container configured'']) 1)
         else
           (let cmd = (if act = Some (js ''enforce'') then command
                       else join_with (js '' '') (filter_Boolean [act, Some command]))
            in if cmd = [] then exit_with [] [js ''Usage: enforce.ts [enforce] <command>''] 1
               else
                 let (written, res) = enforce e cmd None
                 in if action res = Block then exit_with [] written 1
                    else exit_with [] written 0))"

section \<open>Example environments\<close>

text \<open>
  A project directory \<open>/work\<close> whose configuration file has the given state, and
  the given outcome of the call that lists the running containers.
\<close>

definition example_env :: "config_file \<Rightarrow> jsstring option \<Rightarrow> env" where
  "example_env file ps =
     \<lparr> cwd = js ''/work'',
       pathJoin = join_with (js ''/''),
       configFile = (\<lambda>path. if path = js ''/work/.claude/docker-config.json'' then file
                             else Missing),
       dockerPs = ps \<rparr>"

text \<open>A configuration file that sets the container name, the mode and the allow-list.\<close>

definition file_config :: "jsstring option \<Rightarrow> jsstring \<Rightarrow> jsstring list \<Rightarrow> DockerConfig" where
  "file_config name mode al =
     \<lparr> containerName = name, enforcement = Some mode, allowedHostCommands = Some al,
       interceptPatterns = None \<rparr>"

text \<open>A configuration file that sets nothing but the intercept toggles.\<close>

definition patterns_only :: "(tool \<times> bool) list \<Rightarrow> DockerConfig" where
  "patterns_only ps =
     \<lparr> containerName = None, enforcement = None, allowedHostCommands = None,
       interceptPatterns = Some ps \<rparr>"

section \<open>An empty container name\<close>

text \<open>
  The configuration with the field \<open>containerName\<close> removed when it is the empty
  string, and the environment in which every configuration file is read that way.
\<close>

definition drop_empty_name :: "DockerConfig \<Rightarrow> DockerConfig" where
  "drop_empty_name c = (if containerName c = Some [] then c\<lparr> containerName := None \<rparr> else c)"

definition without_empty_name :: "env \<Rightarrow> env" where
  "without_empty_name e =
     e\<lparr> configFile := (\<lambda>path. case configFile e path of
            Parsed c \<Rightarrow> Parsed (drop_empty_name c)
          | other \<Rightarrow> other) \<rparr>"

section \<open>Basic facts\<close>

lemma truthy_iff: "truthy x \<longleftrightarrow> (\<exists>s. x = Some s \<and> s \<noteq> [])"
  by (cases x) simp_all

lemma intercept_loop_iff:
  "intercept_loop command ps \<longleftrightarrow> (\<exists>t. (t, True) \<in> set ps \<and> test (INTERCEPT_PATTERNS t) command)"
  by (induction ps) (auto split: if_splits)

lemma startsWith_space_iff:
  "prefix (a @ js '' '') c \<longleftrightarrow> (\<exists>rest. c = a @ js '' '' @ rest)"
  by (auto simp: prefix_def)

lemma allowed_loop_iff:
  "allowed_loop command al \<longleftrightarrow> (\<exists>a\<in>set al. command = a \<or> prefix (a @ js '' '') command)"
  by (induction al) auto

lemma shouldIntercept_iff:
  "interceptPatterns config = Some ps \<Longrightarrow>
   shouldIntercept command config \<longleftrightarrow>
     (\<exists>t. (t, True) \<in> set ps \<and> test (INTERCEPT_PATTERNS t) command)"
  by (simp add: shouldIntercept_def intercept_loop_iff)

lemma isAllowed_iff:
  "allowedHostCommands config = Some al \<Longrightarrow>
   isAllowed command config \<longleftrightarrow> (\<exists>a\<in>set al. command = a \<or> prefix (a @ js '' '') command)"
  by (simp add: isAllowed_def allowed_loop_iff)

lemma loadConfig_cases:
  "snd (loadConfig e p) = DEFAULT_CONFIG \<or> (\<exists>c. snd (loadConfig e p) = spread DEFAULT_CONFIG c)"
  by (auto simp: loadConfig_def Let_def split: config_file.splits)

lemma loadConfig_defined:
  "enforcement (snd (loadConfig e p)) \<noteq> None \<and>
   allowedHostCommands (snd (loadConfig e p)) \<noteq> None \<and>
   interceptPatterns (snd (loadConfig e p)) \<noteq> None"
  using loadConfig_cases [of e p]
  by (auto simp: DEFAULT_CONFIG_def spread_def split: option.splits)

lemma modes_distinct:
  "js ''block'' \<noteq> js ''disabled''" "js ''warn'' \<noteq> js ''disabled''"
  "js ''transform'' \<noteq> js ''disabled''" "js ''warn'' \<noteq> js ''block''"
  "js ''transform'' \<noteq> js ''block''" "js ''transform'' \<noteq> js ''warn''"
  by (simp_all add: js_def)

lemma enforce_policy:
  assumes "snd (loadConfig e p) = config"
    and "enforcement config \<noteq> Some (js ''disabled'')"
    and "shouldIntercept command config" and "\<not> isAllowed command config"
  shows "snd (enforce e command p) =
     (if enforcement config = Some (js ''block'')
      then result Block (Some (js ''Docker-first policy violation'')) None
      else if enforcement config = Some (js ''warn'') then result Warn None None
      else if enforcement config = Some (js ''transform'') then
        (if \<not> truthy (containerName config)
         then result Block (Some (js ''No container configured'')) None
         else if \<not> isContainerRunning e (the (containerName config))
         then result Block (Some (js ''Container not running'')) None
         else result Transform None
                (Some (js ''docker exec '' @ the (containerName config) @ js '' '' @ command)))
      else result Allow None None)"
  using assms by (cases "loadConfig e p") (simp add: enforce_def Let_def)

lemma enforce_allow:
  assumes "snd (loadConfig e p) = config"
    and "enforcement config = Some (js ''disabled'') \<or> \<not> shouldIntercept command config
         \<or> isAllowed command config"
  shows "enforce e command p = (fst (loadConfig e p), result Allow None None)"
  using assms by (cases "loadConfig e p") (auto simp add: enforce_def Let_def)

lemma main_enforce_path:
  assumes "drop 2 argv = a # rest"
    and "a \<noteq> js ''check''" "a \<noteq> js ''validate''" "a \<noteq> js ''transform''"
    and "cmd = (if a = js ''enforce'' then join_with (js '' '') rest
                else join_with (js '' '') (filter_Boolean [Some a, Some (join_with (js '' '') rest)]))"
    and "cmd \<noteq> []"
  shows "main e argv =
     exit_with [] (fst (enforce e cmd None))
       (if action (snd (enforce e cmd None)) = Block then 1 else 0)"
proof (cases "a = js ''enforce''")
  case True
  with assms show ?thesis
    by (simp add: main_def Let_def split: prod.splits)
next
  case False
  with assms show ?thesis
    by (simp add: main_def Let_def split: prod.splits del: filter_Boolean.simps)
qed

lemma test_empty: "\<not> test (INTERCEPT_PATTERNS t) []"
  by (cases t) (simp_all add: test_def js_def)

lemma intercepted_and_not_allowed:
  assumes "interceptPatterns config = Some ps"
    and "(t, True) \<in> set ps" and "test (INTERCEPT_PATTERNS t) cmd"
    and "allowedHostCommands config = Some al"
    and "\<forall>a\<in>set al. cmd \<noteq> a \<and> \<not> (\<exists>rest. cmd = a @ js '' '' @ rest)"
  shows "shouldIntercept cmd config \<and> \<not> isAllowed cmd config"
  using assms by (auto simp: shouldIntercept_iff isAllowed_iff startsWith_space_iff)

lemma main_check:
  assumes "drop 2 argv = js ''check'' # rest"
    and "cmd = join_with (js '' '') rest" and "cmd \<noteq> []"
  shows "main e argv =
     (if shouldIntercept cmd (snd (loadConfig e None)) \<and> \<not> isAllowed cmd (snd (loadConfig e None))
      then exit_with [js ''WOULD_BLOCK: '' @ cmd] (fst (loadConfig e None)) 1
      else exit_with [js ''ALLOWED: '' @ cmd] (fst (loadConfig e None)) 0)"
  using assms by (simp add: main_def Let_def split: prod.splits)

lemma loadConfig_named_no_warning:
  "containerName (snd (loadConfig e p)) \<noteq> None \<Longrightarrow> fst (loadConfig e p) = []"
  by (auto simp: loadConfig_def Let_def DEFAULT_CONFIG_def split: config_file.splits)

lemma main_validate:
  assumes "drop 2 argv = js ''validate'' # rest"
  shows "main e argv =
     (if \<not> truthy (containerName (snd (loadConfig e None)))
      then exit_with [js ''ERROR: No container configured''] (fst (loadConfig e None)) 1
      else if isContainerRunning e (the (containerName (snd (loadConfig e None))))
      then exit_with [js ''OK: Container '' @ apos @ the (containerName (snd (loadConfig e None)))
                        @ apos @ js '' is running''] (fst (loadConfig e None)) 0
      else exit_with [js ''ERROR: Container '' @ apos
                        @ the (containerName (snd (loadConfig e None))) @ apos
                        @ js '' is not running''] (fst (loadConfig e None)) 1)"
proof -
  have "js ''validate'' \<noteq> js ''check''" by (simp add: js_def)
  with assms show ?thesis
    by (simp add: main_def Let_def split: prod.splits)
qed

lemma main_transform:
  assumes "drop 2 argv = js ''transform'' # rest"
  shows "main e argv =
     (if join_with (js '' '') rest = []
      then exit_with [] [js ''Usage: enforce.ts transform <command>''] 1
      else if truthy (containerName (snd (loadConfig e None)))
      then exit_with [js ''docker exec '' @ the (containerName (snd (loadConfig e None)))
                        @ js '' '' @ join_with (js '' '') rest] (fst (loadConfig e None)) 0
      else exit_with [] (fst (loadConfig e None) @ [js ''ERROR: No container configured'']) 1)"
proof -
  have "js ''transform'' \<noteq> js ''check''" "js ''transform'' \<noteq> js ''validate''"
    by (simp_all add: js_def)
  with assms show ?thesis
    by (simp add: main_def Let_def split: prod.splits)
qed

section \<open>What the intercept patterns match\<close>

text \<open>
  The matcher on the seven patterns: the tool name at the start of the command, one or
  more white space characters, and for four of the tools one of the listed words.
\<close>

lemma rmatch_RSeq_match:
  "rmatch (RSeq a b) s i \<noteq> [] \<longleftrightarrow> (\<exists>j\<in>set (rmatch a s i). rmatch b s j \<noteq> [])"
  by auto

lemma set_rmatch_RBol: "set (rmatch RBol s i) = (if i = 0 then {0} else {})"
  by simp

lemma set_rmatch_RLit:
  "set (rmatch (RLit l) s i) = (if prefix l (drop i s) then {i + length l} else {})"
  by simp

lemma set_rmatch_RSpaces:
  "set (rmatch RSpaces s i) = {j. i < j \<and> j \<le> i + length (takeWhile isWhiteSpace (drop i s))}"
proof -
  let ?n = "length (takeWhile isWhiteSpace (drop i s))"
  have "set (rmatch RSpaces s i) = (\<lambda>k. i + k) ` {1..<Suc ?n}"
    by (simp only: rmatch.simps Let_def set_rev set_map set_upt)
  also have "\<dots> = {j. i < j \<and> j \<le> i + ?n}"
  proof (intro set_eqI iffI)
    fix j
    assume "j \<in> (\<lambda>k. i + k) ` {1..<Suc ?n}"
    then show "j \<in> {j. i < j \<and> j \<le> i + ?n}"
      by auto
  next
    fix j
    assume "j \<in> {j. i < j \<and> j \<le> i + ?n}"
    then have "j = i + (j - i)" "j - i \<in> {1..<Suc ?n}"
      by auto
    then show "j \<in> (\<lambda>k. i + k) ` {1..<Suc ?n}"
      by (rule image_eqI)
  qed
  finally show ?thesis .
qed

lemma set_rmatch_words_alt:
  "set (rmatch (words_alt ws) s i) = {i + length (js w) |w. w \<in> set ws \<and> prefix (js w) (drop i s)}"
  by (auto simp: words_alt_def)

lemma test_anchored: "test (RSeq RBol r) s \<longleftrightarrow> rmatch r s 0 \<noteq> []"
proof -
  have "test (RSeq RBol r) s \<longleftrightarrow>
      (\<exists>i\<in>set [0..<Suc (length s)]. \<exists>j\<in>set (rmatch RBol s i). rmatch r s j \<noteq> [])"
    unfolding test_def list_ex_iff rmatch_RSeq_match ..
  also have "\<dots> \<longleftrightarrow> rmatch r s 0 \<noteq> []"
    unfolding set_rmatch_RBol by (auto split: if_splits)
  finally show ?thesis .
qed

lemma spaces_prefix_length:
  assumes "\<forall>c\<in>set ws. isWhiteSpace c"
  shows "length ws \<le> length (takeWhile isWhiteSpace (ws @ rest))"
  using assms by (induction ws) auto

lemma take_spaces:
  assumes "k \<le> length (takeWhile isWhiteSpace r)"
  shows "\<forall>c\<in>set (take k r). isWhiteSpace c"
  using assms
proof (induction r arbitrary: k)
  case Nil
  then show ?case by simp
next
  case (Cons c r)
  then show ?case by (cases k) (auto split: if_splits)
qed

lemma test_tool_then_spaces:
  "test (RSeq RBol (RSeq (RLit l) RSpaces)) s \<longleftrightarrow>
     (\<exists>c rest. s = l @ c # rest \<and> isWhiteSpace c)"
proof -
  have "test (RSeq RBol (RSeq (RLit l) RSpaces)) s \<longleftrightarrow>
      (\<exists>j\<in>set (rmatch (RLit l) s 0). set (rmatch RSpaces s j) \<noteq> {})"
    unfolding test_anchored rmatch_RSeq_match by simp
  also have "\<dots> \<longleftrightarrow> prefix l s \<and> takeWhile isWhiteSpace (drop (length l) s) \<noteq> []"
    unfolding set_rmatch_RLit set_rmatch_RSpaces
    by (cases "takeWhile isWhiteSpace (drop (length l) s)") auto
  also have "\<dots> \<longleftrightarrow> (\<exists>c rest. s = l @ c # rest \<and> isWhiteSpace c)"
  proof
    assume h: "prefix l s \<and> takeWhile isWhiteSpace (drop (length l) s) \<noteq> []"
    then obtain r where r: "s = l @ r" by (auto simp: prefix_def)
    with h have "takeWhile isWhiteSpace r \<noteq> []" by simp
    then obtain c rest where "r = c # rest" "isWhiteSpace c"
      by (cases r) (auto split: if_splits)
    with r show "\<exists>c rest. s = l @ c # rest \<and> isWhiteSpace c" by blast
  next
    assume "\<exists>c rest. s = l @ c # rest \<and> isWhiteSpace c"
    then show "prefix l s \<and> takeWhile isWhiteSpace (drop (length l) s) \<noteq> []"
      by auto
  qed
  finally show ?thesis .
qed

lemma test_tool_spaces_word:
  "test (RSeq RBol (RSeq (RLit l) (RSeq RSpaces (words_alt alts)))) s \<longleftrightarrow>
     (\<exists>ws w rest. s = l @ ws @ js w @ rest \<and> ws \<noteq> [] \<and> (\<forall>c\<in>set ws. isWhiteSpace c)
        \<and> w \<in> set alts)"
  (is "?lhs \<longleftrightarrow> ?rhs")
proof -
  have m: "?lhs \<longleftrightarrow>
      (\<exists>i\<in>set (rmatch (RLit l) s 0). \<exists>j\<in>set (rmatch RSpaces s i).
         set (rmatch (words_alt alts) s j) \<noteq> {})"
    unfolding test_anchored rmatch_RSeq_match by simp
  show ?thesis
  proof
    assume ?lhs
    then obtain i j where i: "i \<in> set (rmatch (RLit l) s 0)"
      and j: "j \<in> set (rmatch RSpaces s i)"
      and w: "set (rmatch (words_alt alts) s j) \<noteq> {}"
      unfolding m by blast
    from i have pl: "prefix l s" and il: "i = length l"
      unfolding set_rmatch_RLit by (auto split: if_splits)
    from pl obtain r where r: "s = l @ r" by (auto simp: prefix_def)
    define k where "k = j - length l"
    from j il r have k: "0 < k" "k \<le> length (takeWhile isWhiteSpace r)" and jk: "j = length l + k"
      unfolding set_rmatch_RSpaces by (auto simp: k_def)
    from w obtain a where a: "a \<in> set alts" "prefix (js a) (drop j s)"
      unfolding set_rmatch_words_alt by blast
    have dj: "drop j s = drop k r" using r jk by simp
    have sp: "\<forall>c\<in>set (take k r). isWhiteSpace c" by (rule take_spaces [OF k(2)])
    from k have "r \<noteq> []" by auto
    with k have tn: "take k r \<noteq> []" by simp
    from a dj obtain rest where d: "drop k r = js a @ rest" by (auto simp: prefix_def)
    have "r = take k r @ drop k r" by simp
    with d r have "s = l @ take k r @ js a @ rest" by simp
    with tn sp a show ?rhs by blast
  next
    assume ?rhs
    then obtain ws w rest where s: "s = l @ ws @ js w @ rest" and ws: "ws \<noteq> []"
      and sp: "\<forall>c\<in>set ws. isWhiteSpace c" and w: "w \<in> set alts" by blast
    have i: "length l \<in> set (rmatch (RLit l) s 0)"
      unfolding set_rmatch_RLit using s by simp
    have len: "length ws \<le> length (takeWhile isWhiteSpace (drop (length l) s))"
      using spaces_prefix_length [OF sp] s by simp
    have j: "length l + length ws \<in> set (rmatch RSpaces s (length l))"
      unfolding set_rmatch_RSpaces using ws len by simp
    have "prefix (js w) (drop (length l + length ws) s)" using s by simp
    then have "set (rmatch (words_alt alts) s (length l + length ws)) \<noteq> {}"
      unfolding set_rmatch_words_alt using w by blast
    with i j show ?lhs unfolding m by blast
  qed
qed

lemma INTERCEPT_PATTERNS_plain:
  "test (INTERCEPT_PATTERNS Npx) s \<longleftrightarrow> (\<exists>c rest. s = js ''npx'' @ c # rest \<and> isWhiteSpace c)"
  "test (INTERCEPT_PATTERNS Node) s \<longleftrightarrow> (\<exists>c rest. s = js ''node'' @ c # rest \<and> isWhiteSpace c)"
  "test (INTERCEPT_PATTERNS Tsx) s \<longleftrightarrow> (\<exists>c rest. s = js ''tsx'' @ c # rest \<and> isWhiteSpace c)"
  unfolding INTERCEPT_PATTERNS.simps by (rule test_tool_then_spaces)+

lemma INTERCEPT_PATTERNS_words:
  "test (INTERCEPT_PATTERNS Npm) s \<longleftrightarrow>
     (\<exists>ws w rest. s = js ''npm'' @ ws @ js w @ rest \<and> ws \<noteq> [] \<and> (\<forall>c\<in>set ws. isWhiteSpace c)
        \<and> w \<in> set [''install'', ''ci'', ''run'', ''test'', ''exec'', ''start'', ''build''])"
  "test (INTERCEPT_PATTERNS Yarn) s \<longleftrightarrow>
     (\<exists>ws w rest. s = js ''yarn'' @ ws @ js w @ rest \<and> ws \<noteq> [] \<and> (\<forall>c\<in>set ws. isWhiteSpace c)
        \<and> w \<in> set [''add'', ''install'', ''run'', ''start'', ''build''])"
  "test (INTERCEPT_PATTERNS Pnpm) s \<longleftrightarrow>
     (\<exists>ws w rest. s = js ''pnpm'' @ ws @ js w @ rest \<and> ws \<noteq> [] \<and> (\<forall>c\<in>set ws. isWhiteSpace c)
        \<and> w \<in> set [''add'', ''install'', ''run'', ''start'', ''build''])"
  "test (INTERCEPT_PATTERNS Bun) s \<longleftrightarrow>
     (\<exists>ws w rest. s = js ''bun'' @ ws @ js w @ rest \<and> ws \<noteq> [] \<and> (\<forall>c\<in>set ws. isWhiteSpace c)
        \<and> w \<in> set [''run'', ''install'', ''add''])"
  unfolding INTERCEPT_PATTERNS.simps by (rule test_tool_spaces_word)+

section \<open>Block mode\<close>

text \<open>
  C1: a command that matches an enabled intercept pattern and is not matched by the
  allow-list, under the enforcement mode \<open>block\<close>: \<open>enforce\<close> returns the action
  \<open>block\<close>, and the command line exits with code 1 on the enforce path, whether the
  sub-command \<open>enforce\<close> is written or the command follows the script name directly.
\<close>

theorem block_mode_blocks:
  assumes "snd (loadConfig e p) = config"
    and "enforcement config = Some (js ''block'')"
    and "interceptPatterns config = Some ps"
    and "(t, True) \<in> set ps" and "test (INTERCEPT_PATTERNS t) cmd"
    and "allowedHostCommands config = Some al"
    and "\<forall>a\<in>set al. cmd \<noteq> a \<and> \<not> (\<exists>rest. cmd = a @ js '' '' @ rest)"
  shows "action (snd (enforce e cmd p)) = Block \<and>
    (p = None \<longrightarrow>
      (\<forall>argv a rest.
         drop 2 argv = a # rest \<and>
         a \<notin> {js ''check'', js ''validate'', js ''transform''} \<and>
         cmd = (if a = js ''enforce'' then join_with (js '' '') rest
                else join_with (js '' '')
                       (filter_Boolean [Some a, Some (join_with (js '' '') rest)]))
         \<longrightarrow> exitCode (main e argv) = 1))"
proof -
  have si: "shouldIntercept cmd config"
    using assms(3-5) by (auto simp: shouldIntercept_iff)
  have na: "\<not> isAllowed cmd config"
    using assms(6,7) by (auto simp: isAllowed_iff startsWith_space_iff)
  have nd: "enforcement config \<noteq> Some (js ''disabled'')"
    using assms(2) by (simp add: modes_distinct)
  have blk: "action (snd (enforce e cmd p)) = Block"
    using enforce_policy [OF assms(1) nd si na] assms(2) by (simp add: result_def)
  have ne: "cmd \<noteq> []"
    using assms(5) test_empty by auto
  show ?thesis
  proof (intro conjI impI allI)
    show "action (snd (enforce e cmd p)) = Block" by (rule blk)
  next
    fix argv a rest
    assume pn: "p = None"
      and h: "drop 2 argv = a # rest \<and>
         a \<notin> {js ''check'', js ''validate'', js ''transform''} \<and>
         cmd = (if a = js ''enforce'' then join_with (js '' '') rest
                else join_with (js '' '')
                       (filter_Boolean [Some a, Some (join_with (js '' '') rest)]))"
    from h have "main e argv =
        exit_with [] (fst (enforce e cmd None))
          (if action (snd (enforce e cmd None)) = Block then 1 else 0)"
      by (intro main_enforce_path [where a = a and rest = rest] ne) simp_all
    with blk pn show "exitCode (main e argv) = 1"
      by (simp add: exit_with_def)
  qed
qed

theorem block_mode_blocks_witness:
  "snd (loadConfig (example_env Missing None) None) = DEFAULT_CONFIG
   \<and> enforcement DEFAULT_CONFIG = Some (js ''block'')
   \<and> interceptPatterns DEFAULT_CONFIG = Some [(Npm, True), (Npx, True), (Yarn, True), (Pnpm, True),
          (Node, True), (Tsx, True), (Bun, True)]
   \<and> test (INTERCEPT_PATTERNS Npm) (js ''npm install express'')
   \<and> allowedHostCommands DEFAULT_CONFIG = Some []
   \<and> action (snd (enforce (example_env Missing None) (js ''npm install express'') None)) = Block
   \<and> exitCode (main (example_env Missing None)
        [js ''node'', js ''enforce.ts'', js ''enforce'', js ''npm'', js ''install'', js ''express'']) = 1
   \<and> exitCode (main (example_env Missing None)
        [js ''node'', js ''enforce.ts'', js ''npm'', js ''install express'']) = 1"
proof -
  have h1: "snd (loadConfig (example_env Missing None) None) = DEFAULT_CONFIG" by code_simp
  have h2: "enforcement DEFAULT_CONFIG = Some (js ''block'')" by (simp add: DEFAULT_CONFIG_def)
  have h3: "interceptPatterns DEFAULT_CONFIG = Some [(Npm, True), (Npx, True), (Yarn, True),
          (Pnpm, True), (Node, True), (Tsx, True), (Bun, True)]" by (simp add: DEFAULT_CONFIG_def)
  have h4: "(Npm, True) \<in> set [(Npm, True), (Npx, True), (Yarn, True),
          (Pnpm, True), (Node, True), (Tsx, True), (Bun, True)]" by simp
  have h5: "test (INTERCEPT_PATTERNS Npm) (js ''npm install express'')" by code_simp
  have h6: "allowedHostCommands DEFAULT_CONFIG = Some []" by (simp add: DEFAULT_CONFIG_def)
  have h7: "\<forall>a\<in>set []. js ''npm install express'' \<noteq> a
              \<and> \<not> (\<exists>rest. js ''npm install express'' = a @ js '' '' @ rest)" by simp
  note c = block_mode_blocks [OF h1 h2 h3 h4 h5 h6 h7]
  have a1: "drop 2 [js ''node'', js ''enforce.ts'', js ''enforce'', js ''npm'', js ''install'', js ''express'']
        = js ''enforce'' # [js ''npm'', js ''install'', js ''express''] \<and>
      js ''enforce'' \<notin> {js ''check'', js ''validate'', js ''transform''} \<and>
      js ''npm install express'' =
        (if js ''enforce'' = js ''enforce''
         then join_with (js '' '') [js ''npm'', js ''install'', js ''express'']
         else join_with (js '' '') (filter_Boolean [Some (js ''enforce''),
                Some (join_with (js '' '') [js ''npm'', js ''install'', js ''express''])]))"
    by (simp add: js_def)
  have a2: "drop 2 [js ''node'', js ''enforce.ts'', js ''npm'', js ''install express'']
        = js ''npm'' # [js ''install express''] \<and>
      js ''npm'' \<notin> {js ''check'', js ''validate'', js ''transform''} \<and>
      js ''npm install express'' =
        (if js ''npm'' = js ''enforce''
         then join_with (js '' '') [js ''install express'']
         else join_with (js '' '') (filter_Boolean [Some (js ''npm''),
                Some (join_with (js '' '') [js ''install express''])]))"
    by (simp add: js_def)
  from c a1 have e1: "exitCode (main (example_env Missing None)
        [js ''node'', js ''enforce.ts'', js ''enforce'', js ''npm'', js ''install'', js ''express'']) = 1"
    by blast
  from c a2 have e2: "exitCode (main (example_env Missing None)
        [js ''node'', js ''enforce.ts'', js ''npm'', js ''install express'']) = 1"
    by blast
  from c h1 h2 h3 h5 h6 e1 e2 show ?thesis by blast
qed

section \<open>Transform mode\<close>

text \<open>
  C2, as stated for every command string, fails: with the mode \<open>transform\<close>, the
  container \<open>dev\<close> configured and running, the command \<open>git status\<close> matches no
  intercept pattern, and \<open>enforce\<close> returns \<open>allow\<close> with no transformed command.
\<close>

theorem transform_every_command_counterexample:
  "enforcement (snd (loadConfig
      (example_env (Parsed (file_config (Some (js ''dev'')) (js ''transform'') []))
         (Some (js ''dev'' @ [newline]))) None)) = Some (js ''transform'')
   \<and> containerName (snd (loadConfig
      (example_env (Parsed (file_config (Some (js ''dev'')) (js ''transform'') []))
         (Some (js ''dev'' @ [newline]))) None)) = Some (js ''dev'')
   \<and> isContainerRunning
      (example_env (Parsed (file_config (Some (js ''dev'')) (js ''transform'') []))
         (Some (js ''dev'' @ [newline]))) (js ''dev'')
   \<and> action (snd (enforce
      (example_env (Parsed (file_config (Some (js ''dev'')) (js ''transform'') []))
         (Some (js ''dev'' @ [newline]))) (js ''git status'') None)) = Allow
   \<and> transformedCommand (snd (enforce
      (example_env (Parsed (file_config (Some (js ''dev'')) (js ''transform'') []))
         (Some (js ''dev'' @ [newline]))) (js ''git status'') None)) = None"
  by code_simp

text \<open>
  C2, amended: for every command that matches an enabled intercept pattern and is not
  matched by the allow-list, under the mode \<open>transform\<close> with a non-empty container
  name configured and the container reported running, \<open>enforce\<close> returns the action
  \<open>transform\<close>, and the transformed command is \<open>docker exec\<close>, a space, the
  container name, a space and the original command.
\<close>

theorem transform_running:
  assumes "snd (loadConfig e p) = config"
    and "enforcement config = Some (js ''transform'')"
    and "interceptPatterns config = Some ps"
    and "(t, True) \<in> set ps" and "test (INTERCEPT_PATTERNS t) cmd"
    and "allowedHostCommands config = Some al"
    and "\<forall>a\<in>set al. cmd \<noteq> a \<and> \<not> (\<exists>rest. cmd = a @ js '' '' @ rest)"
    and "containerName config = Some name" and "name \<noteq> []"
    and "isContainerRunning e name"
  shows "action (snd (enforce e cmd p)) = Transform \<and>
    transformedCommand (snd (enforce e cmd p)) =
      Some (js ''docker exec '' @ name @ js '' '' @ cmd)"
proof -
  have sa: "shouldIntercept cmd config \<and> \<not> isAllowed cmd config"
    by (rule intercepted_and_not_allowed [OF assms(3-7)])
  have nd: "enforcement config \<noteq> Some (js ''disabled'')"
    using assms(2) by (simp add: modes_distinct)
  show ?thesis
    using enforce_policy [OF assms(1) nd] sa assms(2,8-10)
    by (simp add: result_def modes_distinct)
qed

theorem transform_running_witness:
  "snd (loadConfig (example_env (Parsed (file_config (Some (js ''dev'')) (js ''transform'') []))
         (Some (js ''dev'' @ [newline]))) None)
     = spread DEFAULT_CONFIG (file_config (Some (js ''dev'')) (js ''transform'') [])
   \<and> enforcement (spread DEFAULT_CONFIG (file_config (Some (js ''dev'')) (js ''transform'') []))
       = Some (js ''transform'')
   \<and> test (INTERCEPT_PATTERNS Npm) (js ''npm install express'')
   \<and> isContainerRunning (example_env (Parsed (file_config (Some (js ''dev'')) (js ''transform'') []))
         (Some (js ''dev'' @ [newline]))) (js ''dev'')
   \<and> action (snd (enforce (example_env (Parsed (file_config (Some (js ''dev'')) (js ''transform'') []))
         (Some (js ''dev'' @ [newline]))) (js ''npm install express'') None)) = Transform
   \<and> transformedCommand (snd (enforce
        (example_env (Parsed (file_config (Some (js ''dev'')) (js ''transform'') []))
         (Some (js ''dev'' @ [newline]))) (js ''npm install express'') None))
       = Some (js ''docker exec dev npm install express'')"
proof -
  let ?e = "example_env (Parsed (file_config (Some (js ''dev'')) (js ''transform'') []))
         (Some (js ''dev'' @ [newline]))"
  let ?c = "spread DEFAULT_CONFIG (file_config (Some (js ''dev'')) (js ''transform'') [])"
  have h1: "snd (loadConfig ?e None) = ?c" by code_simp
  have h2: "enforcement ?c = Some (js ''transform'')" by code_simp
  have h3: "interceptPatterns ?c = Some [(Npm, True), (Npx, True), (Yarn, True),
          (Pnpm, True), (Node, True), (Tsx, True), (Bun, True)]" by code_simp
  have h4: "(Npm, True) \<in> set [(Npm, True), (Npx, True), (Yarn, True),
          (Pnpm, True), (Node, True), (Tsx, True), (Bun, True)]" by simp
  have h5: "test (INTERCEPT_PATTERNS Npm) (js ''npm install express'')" by code_simp
  have h6: "allowedHostCommands ?c = Some []" by code_simp
  have h7: "\<forall>a\<in>set []. js ''npm install express'' \<noteq> a
              \<and> \<not> (\<exists>rest. js ''npm install express'' = a @ js '' '' @ rest)" by simp
  have h8: "containerName ?c = Some (js ''dev'')" by code_simp
  have h9: "js ''dev'' \<noteq> []" by (simp add: js_def)
  have h10: "isContainerRunning ?e (js ''dev'')" by code_simp
  have s: "js ''docker exec '' @ js ''dev'' @ js '' '' @ js ''npm install express''
            = js ''docker exec dev npm install express''" by (simp add: js_def)
  from transform_running [OF h1 h2 h3 h4 h5 h6 h7 h8 h9 h10] h1 h2 h5 h10 s
  show ?thesis by simp
qed

section \<open>The allow-list\<close>

text \<open>
  C3: a command equal to an entry of the allow-list, or made of an entry, a space and
  anything after it, gets the action \<open>allow\<close> from \<open>enforce\<close>, whatever the
  enforcement mode is.
\<close>

theorem allow_listed_allowed:
  assumes "snd (loadConfig e p) = config"
    and "allowedHostCommands config = Some al"
    and "a \<in> set al"
    and "cmd = a \<or> (\<exists>rest. cmd = a @ js '' '' @ rest)"
  shows "action (snd (enforce e cmd p)) = Allow"
proof -
  have "isAllowed cmd config"
    using assms(2-4) by (auto simp: isAllowed_iff startsWith_space_iff)
  then show ?thesis
    using enforce_allow [OF assms(1), of cmd] by (simp add: result_def)
qed

theorem allow_listed_allowed_witness:
  "shouldIntercept (js ''npm run lint --fix'') DEFAULT_CONFIG
   \<and> js ''npm run lint --fix'' = js ''npm run lint'' @ js '' '' @ js ''--fix''
   \<and> action (snd (enforce
          (example_env (Parsed (file_config None (js ''block'') [js ''npm run lint''])) None)
          (js ''npm run lint --fix'') None)) = Allow
   \<and> action (snd (enforce
          (example_env (Parsed (file_config None (js ''warn'') [js ''npm run lint''])) None)
          (js ''npm run lint --fix'') None)) = Allow
   \<and> action (snd (enforce
          (example_env (Parsed (file_config None (js ''transform'') [js ''npm run lint''])) None)
          (js ''npm run lint --fix'') None)) = Allow
   \<and> action (snd (enforce
          (example_env (Parsed (file_config None (js ''disabled'') [js ''npm run lint''])) None)
          (js ''npm run lint --fix'') None)) = Allow
   \<and> action (snd (enforce
          (example_env (Parsed (file_config None (js ''block'') [js ''npm run lint''])) None)
          (js ''npm run lint'') None)) = Allow"
proof -
  have si: "shouldIntercept (js ''npm run lint --fix'') DEFAULT_CONFIG" by code_simp
  have ext: "js ''npm run lint --fix'' = js ''npm run lint'' @ js '' '' @ js ''--fix''"
    by (simp add: js_def)
  have al: "allowedHostCommands (snd (loadConfig
          (example_env (Parsed (file_config None mode [js ''npm run lint''])) None) None))
        = Some [js ''npm run lint'']" for mode
    by (simp add: loadConfig_def example_env_def file_config_def spread_def js_def)
  have m: "js ''npm run lint'' \<in> set [js ''npm run lint'']" by simp
  have r: "action (snd (enforce
          (example_env (Parsed (file_config None mode [js ''npm run lint''])) None)
          (js ''npm run lint --fix'') None)) = Allow" for mode
    by (rule allow_listed_allowed [OF refl al m]) (use ext in blast)
  have x: "action (snd (enforce
          (example_env (Parsed (file_config None (js ''block'') [js ''npm run lint''])) None)
          (js ''npm run lint'') None)) = Allow"
    by (rule allow_listed_allowed [OF refl al m]) simp
  from si ext r x show ?thesis by blast
qed

section \<open>What an allow-list entry covers\<close>

text \<open>
  C4, as stated, fails: with the allow-list \<open>["npm run lint"]\<close> the check returns
  false for \<open>npm run lint:fix\<close>, since the command is neither the entry nor the
  entry followed by a space.
\<close>

theorem lint_fix_counterexample:
  "allowedHostCommands (file_config None (js ''block'') [js ''npm run lint''])
     = Some [js ''npm run lint'']
   \<and> isAllowed (js ''npm run lint:fix'') (file_config None (js ''block'') [js ''npm run lint''])
     = False"
  by code_simp

text \<open>
  C4, amended: with an allow-list containing the entry \<open>npm run lint\<close>, the check
  returns true for \<open>npm run lint\<close> and for every command made of the entry, a
  space and anything after it; it returns true for \<open>npm run lint:fix\<close> only when
  another entry of the list matches that command.
\<close>

theorem allow_list_entry_then_space:
  assumes "allowedHostCommands config = Some al"
    and "js ''npm run lint'' \<in> set al"
  shows "isAllowed (js ''npm run lint'') config
     \<and> (\<forall>rest. isAllowed (js ''npm run lint'' @ js '' '' @ rest) config)
     \<and> (isAllowed (js ''npm run lint:fix'') config \<longleftrightarrow>
          (\<exists>a\<in>set al. a \<noteq> js ''npm run lint''
             \<and> (js ''npm run lint:fix'' = a \<or> (\<exists>rest. js ''npm run lint:fix'' = a @ js '' '' @ rest))))"
proof -
  have no: "js ''npm run lint:fix'' \<noteq> js ''npm run lint''"
    "\<not> prefix (js ''npm run lint'' @ js '' '') (js ''npm run lint:fix'')"
    by (simp_all add: js_def)
  have 1: "isAllowed (js ''npm run lint'') config"
    using assms by (auto simp: isAllowed_iff)
  have 2: "isAllowed (js ''npm run lint'' @ js '' '' @ rest) config" for rest
    using assms by (auto simp: isAllowed_iff startsWith_space_iff)
  have 3: "isAllowed (js ''npm run lint:fix'') config \<longleftrightarrow>
          (\<exists>a\<in>set al. a \<noteq> js ''npm run lint''
             \<and> (js ''npm run lint:fix'' = a \<or> (\<exists>rest. js ''npm run lint:fix'' = a @ js '' '' @ rest)))"
  proof
    assume "isAllowed (js ''npm run lint:fix'') config"
    then obtain a where a: "a \<in> set al"
        "js ''npm run lint:fix'' = a \<or> prefix (a @ js '' '') (js ''npm run lint:fix'')"
      unfolding isAllowed_iff [OF assms(1)] by blast
    with no have "a \<noteq> js ''npm run lint''" by auto
    with a show "\<exists>a\<in>set al. a \<noteq> js ''npm run lint''
             \<and> (js ''npm run lint:fix'' = a \<or> (\<exists>rest. js ''npm run lint:fix'' = a @ js '' '' @ rest))"
      unfolding startsWith_space_iff by blast
  next
    assume "\<exists>a\<in>set al. a \<noteq> js ''npm run lint''
             \<and> (js ''npm run lint:fix'' = a \<or> (\<exists>rest. js ''npm run lint:fix'' = a @ js '' '' @ rest))"
    then show "isAllowed (js ''npm run lint:fix'') config"
      unfolding isAllowed_iff [OF assms(1)] startsWith_space_iff by blast
  qed
  from 1 2 3 show ?thesis by blast
qed

theorem allow_list_entry_then_space_witness:
  "allowedHostCommands (file_config None (js ''block'') [js ''npm run lint''])
     = Some [js ''npm run lint'']
   \<and> isAllowed (js ''npm run lint'') (file_config None (js ''block'') [js ''npm run lint''])
   \<and> isAllowed (js ''npm run lint --fix'') (file_config None (js ''block'') [js ''npm run lint''])
   \<and> \<not> isAllowed (js ''npm run lint:fix'')
         (file_config None (js ''block'') [js ''npm run lint''])"
proof -
  let ?c = "file_config None (js ''block'') [js ''npm run lint'']"
  have h1: "allowedHostCommands ?c = Some [js ''npm run lint'']" by (simp add: file_config_def)
  have h2: "js ''npm run lint'' \<in> set [js ''npm run lint'']" by simp
  have ext: "js ''npm run lint --fix'' = js ''npm run lint'' @ js '' '' @ js ''--fix''"
    by (simp add: js_def)
  note c = allow_list_entry_then_space [OF h1 h2]
  from c have r1: "isAllowed (js ''npm run lint'') ?c" by blast
  from c have "isAllowed (js ''npm run lint'' @ js '' '' @ js ''--fix'') ?c" by blast
  with ext have r2: "isAllowed (js ''npm run lint --fix'') ?c" by simp
  from c have "isAllowed (js ''npm run lint:fix'') ?c \<longleftrightarrow>
      (\<exists>a\<in>set [js ''npm run lint'']. a \<noteq> js ''npm run lint''
         \<and> (js ''npm run lint:fix'' = a \<or> (\<exists>rest. js ''npm run lint:fix'' = a @ js '' '' @ rest)))"
    by (rule conjunct2 [THEN conjunct2])
  then have r3: "\<not> isAllowed (js ''npm run lint:fix'') ?c" by simp
  from h1 r1 r2 r3 show ?thesis by blast
qed

section \<open>Disabled mode\<close>

text \<open>
  C5: under the enforcement mode \<open>disabled\<close>, \<open>enforce\<close> returns the action
  \<open>allow\<close> for every command and every configuration; the witness takes a
  command that matches an enabled pattern and is not allow-listed.
\<close>

theorem disabled_allows:
  assumes "enforcement (snd (loadConfig e p)) = Some (js ''disabled'')"
  shows "action (snd (enforce e cmd p)) = Allow"
  using enforce_allow [OF refl, of e p cmd] assms by (simp add: result_def)

theorem disabled_allows_witness:
  "enforcement (snd (loadConfig
      (example_env (Parsed (file_config None (js ''disabled'') [])) None) None))
     = Some (js ''disabled'')
   \<and> shouldIntercept (js ''npm install express'')
        (snd (loadConfig (example_env (Parsed (file_config None (js ''disabled'') [])) None) None))
   \<and> \<not> isAllowed (js ''npm install express'')
        (snd (loadConfig (example_env (Parsed (file_config None (js ''disabled'') [])) None) None))
   \<and> action (snd (enforce (example_env (Parsed (file_config None (js ''disabled'') [])) None)
        (js ''npm install express'') None)) = Allow"
proof -
  let ?e = "example_env (Parsed (file_config None (js ''disabled'') [])) None"
  have h: "enforcement (snd (loadConfig ?e None)) = Some (js ''disabled'')" by code_simp
  have si: "shouldIntercept (js ''npm install express'') (snd (loadConfig ?e None))" by code_simp
  have na: "\<not> isAllowed (js ''npm install express'') (snd (loadConfig ?e None))" by code_simp
  from disabled_allows [OF h, of "js ''npm install express''"] h si na show ?thesis by blast
qed

section \<open>Transform mode without a usable container\<close>

text \<open>
  C6: for an intercepted command that is not allow-listed, under the mode
  \<open>transform\<close>: with no container name configured (absent, or the empty string,
  which the code treats alike) \<open>enforce\<close> returns \<open>block\<close> with the message
  \<open>No container configured\<close>; with a container name configured and the container
  reported not running it returns \<open>block\<close> with the message
  \<open>Container not running\<close>.
\<close>

theorem transform_without_container:
  assumes "snd (loadConfig e p) = config"
    and "enforcement config = Some (js ''transform'')"
    and "interceptPatterns config = Some ps"
    and "(t, True) \<in> set ps" and "test (INTERCEPT_PATTERNS t) cmd"
    and "allowedHostCommands config = Some al"
    and "\<forall>a\<in>set al. cmd \<noteq> a \<and> \<not> (\<exists>rest. cmd = a @ js '' '' @ rest)"
  shows "(containerName config = None \<or> containerName config = Some [] \<longrightarrow>
            action (snd (enforce e cmd p)) = Block \<and>
            message (snd (enforce e cmd p)) = Some (js ''No container configured''))
       \<and> (\<forall>name. containerName config = Some name \<and> name \<noteq> [] \<and> \<not> isContainerRunning e name \<longrightarrow>
            action (snd (enforce e cmd p)) = Block \<and>
            message (snd (enforce e cmd p)) = Some (js ''Container not running''))"
proof -
  have sa: "shouldIntercept cmd config \<and> \<not> isAllowed cmd config"
    by (rule intercepted_and_not_allowed [OF assms(3-7)])
  have nd: "enforcement config \<noteq> Some (js ''disabled'')"
    using assms(2) by (simp add: modes_distinct)
  show ?thesis
    using enforce_policy [OF assms(1) nd] sa assms(2)
    by (auto simp add: result_def modes_distinct)
qed

theorem transform_without_container_witness:
  "enforcement (snd (loadConfig
       (example_env (Parsed (file_config None (js ''transform'') [])) None) None))
     = Some (js ''transform'')
   \<and> containerName (snd (loadConfig
       (example_env (Parsed (file_config None (js ''transform'') [])) None) None)) = None
   \<and> test (INTERCEPT_PATTERNS Npm) (js ''npm install express'')
   \<and> message (snd (enforce (example_env (Parsed (file_config None (js ''transform'') [])) None)
        (js ''npm install express'') None)) = Some (js ''No container configured'')
   \<and> action (snd (enforce (example_env (Parsed (file_config None (js ''transform'') [])) None)
        (js ''npm install express'') None)) = Block
   \<and> containerName (snd (loadConfig
       (example_env (Parsed (file_config (Some (js ''dev'')) (js ''transform'') []))
          (Some (js ''web'' @ [newline]))) None)) = Some (js ''dev'')
   \<and> \<not> isContainerRunning
       (example_env (Parsed (file_config (Some (js ''dev'')) (js ''transform'') []))
          (Some (js ''web'' @ [newline]))) (js ''dev'')
   \<and> message (snd (enforce
       (example_env (Parsed (file_config (Some (js ''dev'')) (js ''transform'') []))
          (Some (js ''web'' @ [newline]))) (js ''npm install express'') None))
     = Some (js ''Container not running'')
   \<and> action (snd (enforce
       (example_env (Parsed (file_config (Some (js ''dev'')) (js ''transform'') []))
          (Some (js ''web'' @ [newline]))) (js ''npm install express'') None)) = Block"
proof -
  let ?e1 = "example_env (Parsed (file_config None (js ''transform'') [])) None"
  let ?e2 = "example_env (Parsed (file_config (Some (js ''dev'')) (js ''transform'') []))
          (Some (js ''web'' @ [newline]))"
  let ?ps = "[(Npm, True), (Npx, True), (Yarn, True), (Pnpm, True), (Node, True), (Tsx, True),
              (Bun, True)]"
  let ?cmd = "js ''npm install express''"
  have m1: "enforcement (snd (loadConfig ?e1 None)) = Some (js ''transform'')" by code_simp
  have m2: "enforcement (snd (loadConfig ?e2 None)) = Some (js ''transform'')" by code_simp
  have p1: "interceptPatterns (snd (loadConfig ?e1 None)) = Some ?ps" by code_simp
  have p2: "interceptPatterns (snd (loadConfig ?e2 None)) = Some ?ps" by code_simp
  have a1: "allowedHostCommands (snd (loadConfig ?e1 None)) = Some []" by code_simp
  have a2: "allowedHostCommands (snd (loadConfig ?e2 None)) = Some []" by code_simp
  have h4: "(Npm, True) \<in> set ?ps" by simp
  have h5: "test (INTERCEPT_PATTERNS Npm) ?cmd" by code_simp
  have h7: "\<forall>a\<in>set []. ?cmd \<noteq> a \<and> \<not> (\<exists>rest. ?cmd = a @ js '' '' @ rest)" by simp
  have n1: "containerName (snd (loadConfig ?e1 None)) = None" by code_simp
  have n2: "containerName (snd (loadConfig ?e2 None)) = Some (js ''dev'')" by code_simp
  have ne: "js ''dev'' \<noteq> []" by (simp add: js_def)
  have nr: "\<not> isContainerRunning ?e2 (js ''dev'')" by code_simp
  from transform_without_container [OF refl m1 p1 h4 h5 a1 h7] n1
  have r1: "action (snd (enforce ?e1 ?cmd None)) = Block \<and>
            message (snd (enforce ?e1 ?cmd None)) = Some (js ''No container configured'')"
    by blast
  from transform_without_container [OF refl m2 p2 h4 h5 a2 h7] n2 ne nr
  have r2: "action (snd (enforce ?e2 ?cmd None)) = Block \<and>
            message (snd (enforce ?e2 ?cmd None)) = Some (js ''Container not running'')"
    by blast
  from m1 n1 h5 r1 n2 nr r2 show ?thesis by blast
qed

section \<open>The sub-command \<open>check\<close>\<close>

text \<open>
  C7, as stated, fails at the empty command: \<open>check ""\<close> under the default
  configuration exits with code 1 and prints neither line on standard output (it
  prints the usage line on standard error), although the empty command matches no
  intercept pattern.
\<close>

theorem check_empty_command_counterexample:
  "join_with (js '' '') (drop 1 (drop 2 [js ''node'', js ''enforce.ts'', js ''check'', []])) = []
   \<and> \<not> shouldIntercept [] (snd (loadConfig (example_env Missing None) None))
   \<and> stdout (main (example_env Missing None) [js ''node'', js ''enforce.ts'', js ''check'', []]) = []
   \<and> stderr (main (example_env Missing None) [js ''node'', js ''enforce.ts'', js ''check'', []])
       = [js ''Usage: enforce.ts check <command>'']
   \<and> exitCode (main (example_env Missing None) [js ''node'', js ''enforce.ts'', js ''check'', []]) = 1"
  by code_simp

text \<open>
  C7, amended: for a non-empty command, \<open>check\<close> prints \<open>WOULD_BLOCK: <command>\<close>
  and exits with code 1 exactly when the command matches an enabled intercept pattern
  and is not allow-listed, and otherwise prints \<open>ALLOWED: <command>\<close> and exits with
  code 0. The outcome is the same in every environment that loads the same intercept
  toggles and allow-list, whatever the mode, the container name and the container
  status are; \<open>check "node app.js"\<close> under the default configuration prints
  \<open>WOULD_BLOCK: node app.js\<close> and exits with code 1.
\<close>

theorem check_subcommand:
  assumes "drop 2 argv = js ''check'' # rest"
    and "cmd = join_with (js '' '') rest" and "cmd \<noteq> []"
    and "snd (loadConfig e None) = config"
    and "interceptPatterns config = Some ps"
    and "allowedHostCommands config = Some al"
  shows
    "((\<exists>t. (t, True) \<in> set ps \<and> test (INTERCEPT_PATTERNS t) cmd)
        \<and> (\<forall>a\<in>set al. cmd \<noteq> a \<and> \<not> (\<exists>more. cmd = a @ js '' '' @ more))
      \<longrightarrow> stdout (main e argv) = [js ''WOULD_BLOCK: '' @ cmd] \<and> exitCode (main e argv) = 1)
   \<and> (\<not> ((\<exists>t. (t, True) \<in> set ps \<and> test (INTERCEPT_PATTERNS t) cmd)
           \<and> (\<forall>a\<in>set al. cmd \<noteq> a \<and> \<not> (\<exists>more. cmd = a @ js '' '' @ more)))
      \<longrightarrow> stdout (main e argv) = [js ''ALLOWED: '' @ cmd] \<and> exitCode (main e argv) = 0)
   \<and> (\<forall>e'. interceptPatterns (snd (loadConfig e' None)) = Some ps
           \<and> allowedHostCommands (snd (loadConfig e' None)) = Some al
      \<longrightarrow> stdout (main e' argv) = stdout (main e argv)
          \<and> exitCode (main e' argv) = exitCode (main e argv))
   \<and> (config = DEFAULT_CONFIG \<and> cmd = js ''node app.js''
      \<longrightarrow> stdout (main e argv) = [js ''WOULD_BLOCK: node app.js''] \<and> exitCode (main e argv) = 1)"
proof -
  let ?hit = "(\<exists>t. (t, True) \<in> set ps \<and> test (INTERCEPT_PATTERNS t) cmd)
        \<and> (\<forall>a\<in>set al. cmd \<noteq> a \<and> \<not> (\<exists>more. cmd = a @ js '' '' @ more))"
  have dec: "shouldIntercept cmd c \<and> \<not> isAllowed cmd c \<longleftrightarrow> ?hit"
    if "interceptPatterns c = Some ps" "allowedHostCommands c = Some al" for c
    using that by (auto simp: shouldIntercept_iff isAllowed_iff startsWith_space_iff)
  have m: "main e' argv =
     (if ?hit then exit_with [js ''WOULD_BLOCK: '' @ cmd] (fst (loadConfig e' None)) 1
      else exit_with [js ''ALLOWED: '' @ cmd] (fst (loadConfig e' None)) 0)"
    if "interceptPatterns (snd (loadConfig e' None)) = Some ps"
       "allowedHostCommands (snd (loadConfig e' None)) = Some al" for e'
    unfolding main_check [OF assms(1-3)] dec [OF that] ..
  have me: "main e argv =
     (if ?hit then exit_with [js ''WOULD_BLOCK: '' @ cmd] (fst (loadConfig e None)) 1
      else exit_with [js ''ALLOWED: '' @ cmd] (fst (loadConfig e None)) 0)"
    using m [of e] assms(4-6) by simp
  have 1: "?hit \<longrightarrow> stdout (main e argv) = [js ''WOULD_BLOCK: '' @ cmd] \<and> exitCode (main e argv) = 1"
    unfolding me by (simp add: exit_with_def)
  have 2: "\<not> ?hit \<longrightarrow> stdout (main e argv) = [js ''ALLOWED: '' @ cmd] \<and> exitCode (main e argv) = 0"
    unfolding me by (simp add: exit_with_def)
  have 3: "\<forall>e'. interceptPatterns (snd (loadConfig e' None)) = Some ps
           \<and> allowedHostCommands (snd (loadConfig e' None)) = Some al
      \<longrightarrow> stdout (main e' argv) = stdout (main e argv)
          \<and> exitCode (main e' argv) = exitCode (main e argv)"
  proof (intro allI impI)
    fix e'
    assume h: "interceptPatterns (snd (loadConfig e' None)) = Some ps
           \<and> allowedHostCommands (snd (loadConfig e' None)) = Some al"
    from h have "main e' argv =
     (if ?hit then exit_with [js ''WOULD_BLOCK: '' @ cmd] (fst (loadConfig e' None)) 1
      else exit_with [js ''ALLOWED: '' @ cmd] (fst (loadConfig e' None)) 0)"
      by (intro m) simp_all
    then show "stdout (main e' argv) = stdout (main e argv)
          \<and> exitCode (main e' argv) = exitCode (main e argv)"
      unfolding me by (simp add: exit_with_def)
  qed
  have node: "shouldIntercept (js ''node app.js'') DEFAULT_CONFIG
      \<and> \<not> isAllowed (js ''node app.js'') DEFAULT_CONFIG"
    by code_simp
  have 4: "config = DEFAULT_CONFIG \<and> cmd = js ''node app.js''
      \<longrightarrow> stdout (main e argv) = [js ''WOULD_BLOCK: node app.js''] \<and> exitCode (main e argv) = 1"
  proof
    assume h: "config = DEFAULT_CONFIG \<and> cmd = js ''node app.js''"
    have j: "js ''WOULD_BLOCK: '' @ js ''node app.js'' = js ''WOULD_BLOCK: node app.js''"
      by (simp add: js_def)
    from h node assms(4) show "stdout (main e argv) = [js ''WOULD_BLOCK: node app.js'']
        \<and> exitCode (main e argv) = 1"
      unfolding main_check [OF assms(1-3)] by (simp add: exit_with_def j)
  qed
  from 1 2 3 4 show ?thesis by blast
qed

theorem check_subcommand_witness:
  "enforcement (snd (loadConfig
       (example_env (Parsed (file_config None (js ''disabled'') [])) None) None))
     = Some (js ''disabled'')
   \<and> stdout (main (example_env (Parsed (file_config None (js ''disabled'') [])) None)
        [js ''node'', js ''enforce.ts'', js ''check'', js ''node'', js ''app.js''])
     = [js ''WOULD_BLOCK: node app.js'']
   \<and> exitCode (main (example_env (Parsed (file_config None (js ''disabled'') [])) None)
        [js ''node'', js ''enforce.ts'', js ''check'', js ''node'', js ''app.js'']) = 1
   \<and> stdout (main (example_env Missing None)
        [js ''node'', js ''enforce.ts'', js ''check'', js ''node'', js ''app.js''])
     = [js ''WOULD_BLOCK: node app.js'']
   \<and> exitCode (main (example_env Missing None)
        [js ''node'', js ''enforce.ts'', js ''check'', js ''node'', js ''app.js'']) = 1
   \<and> stdout (main (example_env Missing None)
        [js ''node'', js ''enforce.ts'', js ''check'', js ''git status''])
     = [js ''ALLOWED: git status'']
   \<and> exitCode (main (example_env Missing None)
        [js ''node'', js ''enforce.ts'', js ''check'', js ''git status'']) = 0"
proof -
  let ?d = "example_env (Parsed (file_config None (js ''disabled'') [])) None"
  let ?m = "example_env Missing None"
  let ?ps = "[(Npm, True), (Npx, True), (Yarn, True), (Pnpm, True), (Node, True), (Tsx, True),
              (Bun, True)]"
  let ?argv = "[js ''node'', js ''enforce.ts'', js ''check'', js ''node'', js ''app.js'']"
  let ?argv2 = "[js ''node'', js ''enforce.ts'', js ''check'', js ''git status'']"
  have dis: "enforcement (snd (loadConfig ?d None)) = Some (js ''disabled'')" by code_simp
  have a1: "drop 2 ?argv = js ''check'' # [js ''node'', js ''app.js'']" by simp
  have a2: "js ''node app.js'' = join_with (js '' '') [js ''node'', js ''app.js'']"
    by (simp add: js_def)
  have a3: "js ''node app.js'' \<noteq> []" by (simp add: js_def)
  have pd: "interceptPatterns (snd (loadConfig ?d None)) = Some ?ps" by code_simp
  have ad: "allowedHostCommands (snd (loadConfig ?d None)) = Some []" by code_simp
  have pm: "interceptPatterns (snd (loadConfig ?m None)) = Some ?ps" by code_simp
  have am: "allowedHostCommands (snd (loadConfig ?m None)) = Some []" by code_simp
  have t: "(Node, True) \<in> set ?ps \<and> test (INTERCEPT_PATTERNS Node) (js ''node app.js'')"
    by code_simp
  have j: "js ''WOULD_BLOCK: '' @ js ''node app.js'' = js ''WOULD_BLOCK: node app.js''"
    by (simp add: js_def)
  note c = check_subcommand [OF a1 a2 a3 refl pd ad]
  from c t have r1: "stdout (main ?d ?argv) = [js ''WOULD_BLOCK: '' @ js ''node app.js'']
      \<and> exitCode (main ?d ?argv) = 1"
    by (elim conjE) auto
  from c pm am have r2: "stdout (main ?m ?argv) = stdout (main ?d ?argv)
      \<and> exitCode (main ?m ?argv) = exitCode (main ?d ?argv)"
    by blast
  have b1: "drop 2 ?argv2 = js ''check'' # [js ''git status'']" by simp
  have b2: "js ''git status'' = join_with (js '' '') [js ''git status'']" by simp
  have b3: "js ''git status'' \<noteq> []" by (simp add: js_def)
  have ns: "\<not> shouldIntercept (js ''git status'') (snd (loadConfig ?m None))" by code_simp
  have nt: "\<not> (\<exists>t. (t, True) \<in> set ?ps \<and> test (INTERCEPT_PATTERNS t) (js ''git status''))"
    using ns unfolding shouldIntercept_iff [OF pm] .
  have j2: "js ''ALLOWED: '' @ js ''git status'' = js ''ALLOWED: git status''"
    by (simp add: js_def)
  note c2 = check_subcommand [OF b1 b2 b3 refl pm am]
  from c2 nt have r3: "stdout (main ?m ?argv2) = [js ''ALLOWED: '' @ js ''git status'']
      \<and> exitCode (main ?m ?argv2) = 0"
    by (elim conjE) blast
  from dis r1 r2 r3 show ?thesis unfolding j j2 by simp
qed

section \<open>The container status check\<close>

lemma split_on_not_Nil: "split_on sep s \<noteq> []"
  by (induction s) (auto split: list.splits)

lemma split_on_pieces: "p \<in> set (split_on sep s) \<Longrightarrow> sep \<notin> set p"
  by (induction s arbitrary: p) (auto split: if_splits list.splits)

lemma join_with_Cons:
  "ps \<noteq> [] \<Longrightarrow> join_with sep (p # ps) = p @ sep @ join_with sep ps"
  by (cases ps) simp_all

lemma join_split_on: "join_with [sep] (split_on sep s) = s"
proof (induction s)
  case Nil
  show ?case by simp
next
  case (Cons c cs)
  show ?case
  proof (cases "c = sep")
    case True
    with Cons show ?thesis by (simp add: join_with_Cons split_on_not_Nil)
  next
    case False
    obtain p ps where sp: "split_on sep cs = p # ps"
      using split_on_not_Nil [of sep cs] by (cases "split_on sep cs") auto
    with Cons False show ?thesis by (cases ps) auto
  qed
qed

lemma split_on_no_sep: "sep \<notin> set x \<Longrightarrow> split_on sep x = [x]"
  by (induction x) auto

lemma split_on_append:
  "sep \<notin> set x \<Longrightarrow> split_on sep (x @ sep # rest) = x # split_on sep rest"
  by (induction x) auto

lemma split_on_join:
  "ps \<noteq> [] \<Longrightarrow> \<forall>p\<in>set ps. sep \<notin> set p \<Longrightarrow> split_on sep (join_with [sep] ps) = ps"
proof (induction ps)
  case Nil
  then show ?case by simp
next
  case (Cons p ps)
  show ?case
  proof (cases ps)
    case Nil
    with Cons.prems show ?thesis by (simp add: split_on_no_sep)
  next
    case (Cons q qs)
    with Cons.IH Cons.prems show ?thesis by (simp add: split_on_append)
  qed
qed

lemma mem_split_on_iff:
  "name \<in> set (split_on sep s) \<longleftrightarrow>
     (\<exists>before after. s = join_with [sep] (before @ [name] @ after)
        \<and> (\<forall>l\<in>set (before @ [name] @ after). sep \<notin> set l))"
proof
  assume m: "name \<in> set (split_on sep s)"
  then obtain before after where sp: "split_on sep s = before @ name # after"
    by (auto simp: in_set_conv_decomp)
  have "s = join_with [sep] (before @ [name] @ after)"
    using join_split_on [of sep s] sp by simp
  moreover have "\<forall>l\<in>set (before @ [name] @ after). sep \<notin> set l"
    using split_on_pieces [of _ sep s] sp by auto
  ultimately show "\<exists>before after. s = join_with [sep] (before @ [name] @ after)
        \<and> (\<forall>l\<in>set (before @ [name] @ after). sep \<notin> set l)" by blast
next
  assume "\<exists>before after. s = join_with [sep] (before @ [name] @ after)
        \<and> (\<forall>l\<in>set (before @ [name] @ after). sep \<notin> set l)"
  then obtain before after where s: "s = join_with [sep] (before @ [name] @ after)"
    and f: "\<forall>l\<in>set (before @ [name] @ after). sep \<notin> set l" by blast
  have "split_on sep s = before @ [name] @ after"
    unfolding s using f by (intro split_on_join) simp_all
  then show "name \<in> set (split_on sep s)" by simp
qed

text \<open>
  C8: when the call that lists the running containers fails, the status check returns
  false, whatever the container name is; it returns true exactly when the call
  succeeded and the name is one of the lines of its output, the output being those
  lines joined by newlines.
\<close>

theorem container_status_check:
  "(dockerPs e = None \<longrightarrow> isContainerRunning e name = False)
   \<and> (isContainerRunning e name \<longleftrightarrow>
        (\<exists>out before after. dockerPs e = Some out
           \<and> out = join_with [newline] (before @ [name] @ after)
           \<and> (\<forall>l\<in>set (before @ [name] @ after). newline \<notin> set l)))"
proof (cases "dockerPs e")
  case None
  then show ?thesis by (simp add: isContainerRunning_def)
next
  case (Some out)
  then show ?thesis
    by (simp add: isContainerRunning_def mem_split_on_iff [of name newline out])
qed

theorem container_status_check_witness:
  "isContainerRunning (example_env Missing (Some (js ''web'' @ [newline] @ js ''dev'' @ [newline])))
     (js ''dev'')
   \<and> isContainerRunning (example_env Missing None) (js ''dev'') = False
   \<and> \<not> isContainerRunning
        (example_env Missing (Some (js ''web'' @ [newline] @ js ''dev'' @ [newline]))) (js ''de'')"
proof -
  let ?out = "js ''web'' @ [newline] @ js ''dev'' @ [newline]"
  let ?e = "example_env Missing (Some ?out)"
  have d: "dockerPs ?e = Some ?out" by (simp add: example_env_def)
  have j: "?out = join_with [newline] ([js ''web''] @ [js ''dev''] @ [[]])" by simp
  have f: "\<forall>l\<in>set ([js ''web''] @ [js ''dev''] @ [[]]). newline \<notin> set l"
    by (simp add: js_def newline_def)
  have n: "dockerPs (example_env Missing None) = None" by (simp add: example_env_def)
  from d j f have "\<exists>out before after. dockerPs ?e = Some out
           \<and> out = join_with [newline] (before @ [js ''dev''] @ after)
           \<and> (\<forall>l\<in>set (before @ [js ''dev''] @ after). newline \<notin> set l)" by blast
  with container_status_check [of ?e "js ''dev''"]
  have r1: "isContainerRunning ?e (js ''dev'')" by blast
  from container_status_check [of "example_env Missing None" "js ''dev''"] n
  have r2: "isContainerRunning (example_env Missing None) (js ''dev'') = False" by blast
  have r3: "\<not> isContainerRunning ?e (js ''de'')" by code_simp
  from r1 r2 r3 show ?thesis by blast
qed

section \<open>Merging the configuration file over the defaults\<close>

lemma all_tools:
  "(\<forall>t. P t) \<longleftrightarrow> P Npm \<and> P Npx \<and> P Yarn \<and> P Pnpm \<and> P Node \<and> P Tsx \<and> P Bun"
  by (metis tool.exhaust)

lemma loadConfig_Parsed:
  assumes "configFile e (pathJoin e [case p of Some q \<Rightarrow> q | None \<Rightarrow> cwd e,
             js ''.claude'', js ''docker-config.json'']) = Parsed file"
  shows "loadConfig e p = ([], spread DEFAULT_CONFIG file)"
  using assms by (simp add: loadConfig_def Let_def)

lemma shouldIntercept_DEFAULT:
  "test (INTERCEPT_PATTERNS t) cmd \<Longrightarrow> shouldIntercept cmd DEFAULT_CONFIG"
proof -
  assume m: "test (INTERCEPT_PATTERNS t) cmd"
  have "(t, True) \<in> set [(Npm, True), (Npx, True), (Yarn, True), (Pnpm, True),
          (Node, True), (Tsx, True), (Bun, True)]"
    by (cases t) simp_all
  moreover have "interceptPatterns DEFAULT_CONFIG = Some [(Npm, True), (Npx, True), (Yarn, True),
          (Pnpm, True), (Node, True), (Tsx, True), (Bun, True)]"
    by (simp add: DEFAULT_CONFIG_def)
  ultimately show ?thesis
    using m shouldIntercept_iff [of DEFAULT_CONFIG _ cmd] by blast
qed

text \<open>
  C9: when the configuration file parses, each field of the loaded configuration is
  the field of the file if the file has it, and the default otherwise. So when the
  file has an \<open>interceptPatterns\<close> object that lacks a tool, a command that matches
  the pattern of that tool only is not intercepted (and \<open>enforce\<close> allows it),
  though the default configuration intercepts it.
\<close>

theorem shallow_merge:
  assumes "configFile e (pathJoin e [case p of Some q \<Rightarrow> q | None \<Rightarrow> cwd e,
             js ''.claude'', js ''docker-config.json'']) = Parsed file"
  shows
    "containerName (snd (loadConfig e p)) =
       (case containerName file of Some v \<Rightarrow> Some v | None \<Rightarrow> containerName DEFAULT_CONFIG)
   \<and> enforcement (snd (loadConfig e p)) =
       (case enforcement file of Some v \<Rightarrow> Some v | None \<Rightarrow> enforcement DEFAULT_CONFIG)
   \<and> allowedHostCommands (snd (loadConfig e p)) =
       (case allowedHostCommands file of Some v \<Rightarrow> Some v
        | None \<Rightarrow> allowedHostCommands DEFAULT_CONFIG)
   \<and> interceptPatterns (snd (loadConfig e p)) =
       (case interceptPatterns file of Some v \<Rightarrow> Some v
        | None \<Rightarrow> interceptPatterns DEFAULT_CONFIG)
   \<and> (\<forall>ps t cmd.
         interceptPatterns file = Some ps \<and> t \<notin> fst ` set ps
         \<and> test (INTERCEPT_PATTERNS t) cmd
         \<and> (\<forall>t'. t' \<noteq> t \<longrightarrow> \<not> test (INTERCEPT_PATTERNS t') cmd)
         \<longrightarrow> \<not> shouldIntercept cmd (snd (loadConfig e p))
             \<and> action (snd (enforce e cmd p)) = Allow
             \<and> shouldIntercept cmd DEFAULT_CONFIG)"
proof -
  note l = loadConfig_Parsed [OF assms]
  have fields:
    "containerName (snd (loadConfig e p)) =
       (case containerName file of Some v \<Rightarrow> Some v | None \<Rightarrow> containerName DEFAULT_CONFIG)"
    "enforcement (snd (loadConfig e p)) =
       (case enforcement file of Some v \<Rightarrow> Some v | None \<Rightarrow> enforcement DEFAULT_CONFIG)"
    "allowedHostCommands (snd (loadConfig e p)) =
       (case allowedHostCommands file of Some v \<Rightarrow> Some v
        | None \<Rightarrow> allowedHostCommands DEFAULT_CONFIG)"
    "interceptPatterns (snd (loadConfig e p)) =
       (case interceptPatterns file of Some v \<Rightarrow> Some v
        | None \<Rightarrow> interceptPatterns DEFAULT_CONFIG)"
    by (simp_all add: l spread_def)
  have cons: "\<not> shouldIntercept cmd (snd (loadConfig e p))
             \<and> action (snd (enforce e cmd p)) = Allow
             \<and> shouldIntercept cmd DEFAULT_CONFIG"
    if h: "interceptPatterns file = Some ps \<and> t \<notin> fst ` set ps
         \<and> test (INTERCEPT_PATTERNS t) cmd
         \<and> (\<forall>t'. t' \<noteq> t \<longrightarrow> \<not> test (INTERCEPT_PATTERNS t') cmd)" for ps t cmd
  proof -
    from h fields(4) have ip: "interceptPatterns (snd (loadConfig e p)) = Some ps" by simp
    have no: "\<not> shouldIntercept cmd (snd (loadConfig e p))"
      unfolding shouldIntercept_iff [OF ip]
    proof
      assume "\<exists>t'. (t', True) \<in> set ps \<and> test (INTERCEPT_PATTERNS t') cmd"
      then obtain t' where t': "(t', True) \<in> set ps" "test (INTERCEPT_PATTERNS t') cmd" by blast
      from t'(2) h have "t' = t" by blast
      with t'(1) have "t \<in> fst ` set ps" by force
      with h show False by blast
    qed
    from no have "action (snd (enforce e cmd p)) = Allow"
      using enforce_allow [OF refl, of e p cmd] by (simp add: result_def)
    with no h shouldIntercept_DEFAULT show ?thesis by blast
  qed
  from fields cons show ?thesis by blast
qed

theorem shallow_merge_witness:
  "configFile (example_env (Parsed (patterns_only [(Npm, True)])) None)
     (pathJoin (example_env (Parsed (patterns_only [(Npm, True)])) None)
        [cwd (example_env (Parsed (patterns_only [(Npm, True)])) None),
         js ''.claude'', js ''docker-config.json''])
     = Parsed (patterns_only [(Npm, True)])
   \<and> interceptPatterns (snd (loadConfig
        (example_env (Parsed (patterns_only [(Npm, True)])) None) None)) = Some [(Npm, True)]
   \<and> enforcement (snd (loadConfig
        (example_env (Parsed (patterns_only [(Npm, True)])) None) None)) = Some (js ''block'')
   \<and> test (INTERCEPT_PATTERNS Node) (js ''node app.js'')
   \<and> \<not> shouldIntercept (js ''node app.js'')
        (snd (loadConfig (example_env (Parsed (patterns_only [(Npm, True)])) None) None))
   \<and> action (snd (enforce (example_env (Parsed (patterns_only [(Npm, True)])) None)
        (js ''node app.js'') None)) = Allow
   \<and> shouldIntercept (js ''node app.js'') DEFAULT_CONFIG"
proof -
  let ?f = "patterns_only [(Npm, True)]"
  let ?e = "example_env (Parsed ?f) None"
  let ?cmd = "js ''node app.js''"
  have h0: "configFile ?e (pathJoin ?e [cwd ?e, js ''.claude'', js ''docker-config.json''])
      = Parsed ?f"
    by (simp add: example_env_def js_def)
  then have h: "configFile ?e (pathJoin ?e [case None of Some q \<Rightarrow> q | None \<Rightarrow> cwd ?e,
             js ''.claude'', js ''docker-config.json'']) = Parsed ?f"
    by simp
  have ip: "interceptPatterns ?f = Some [(Npm, True)]" by (simp add: patterns_only_def)
  have en: "enforcement ?f = None" by (simp add: patterns_only_def)
  have db: "enforcement DEFAULT_CONFIG = Some (js ''block'')" by (simp add: DEFAULT_CONFIG_def)
  have nk: "Node \<notin> fst ` set [(Npm, True)]" by simp
  have tn: "test (INTERCEPT_PATTERNS Node) ?cmd" by code_simp
  have others: "\<not> test (INTERCEPT_PATTERNS Npm) ?cmd \<and> \<not> test (INTERCEPT_PATTERNS Npx) ?cmd
      \<and> \<not> test (INTERCEPT_PATTERNS Yarn) ?cmd \<and> \<not> test (INTERCEPT_PATTERNS Pnpm) ?cmd
      \<and> \<not> test (INTERCEPT_PATTERNS Tsx) ?cmd \<and> \<not> test (INTERCEPT_PATTERNS Bun) ?cmd"
    by code_simp
  have only: "\<forall>t'. t' \<noteq> Node \<longrightarrow> \<not> test (INTERCEPT_PATTERNS t') ?cmd"
    unfolding all_tools using others by simp
  note c = shallow_merge [OF h]
  from c ip have r1: "interceptPatterns (snd (loadConfig ?e None)) = Some [(Npm, True)]"
    by simp
  from c en db have r2: "enforcement (snd (loadConfig ?e None)) = Some (js ''block'')"
    by simp
  from c ip nk tn only
  have r3: "\<not> shouldIntercept ?cmd (snd (loadConfig ?e None))
             \<and> action (snd (enforce ?e ?cmd None)) = Allow
             \<and> shouldIntercept ?cmd DEFAULT_CONFIG"
    by blast
  from h0 r1 r2 tn r3 show ?thesis by blast
qed

section \<open>The empty container name behaves as an absent one\<close>

lemma drop_empty_name_fields:
  "enforcement (drop_empty_name c) = enforcement c"
  "allowedHostCommands (drop_empty_name c) = allowedHostCommands c"
  "interceptPatterns (drop_empty_name c) = interceptPatterns c"
  "truthy (containerName (drop_empty_name c)) = truthy (containerName c)"
  "truthy (containerName c) \<Longrightarrow> containerName (drop_empty_name c) = containerName c"
  by (auto simp: drop_empty_name_def)

lemma drop_empty_name_uses:
  "shouldIntercept cmd (drop_empty_name c) = shouldIntercept cmd c"
  "isAllowed cmd (drop_empty_name c) = isAllowed cmd c"
  "showBlockMessage cmd (containerName (drop_empty_name c)) = showBlockMessage cmd (containerName c)"
  "showWarning cmd (containerName (drop_empty_name c)) = showWarning cmd (containerName c)"
  by (auto simp: shouldIntercept_def isAllowed_def showBlockMessage_def showWarning_def
        drop_empty_name_fields)

lemma spread_drop_empty_name:
  "spread DEFAULT_CONFIG (drop_empty_name c) = drop_empty_name (spread DEFAULT_CONFIG c)"
  by (cases "containerName c") (auto simp: spread_def drop_empty_name_def DEFAULT_CONFIG_def)

lemma drop_empty_name_DEFAULT: "drop_empty_name DEFAULT_CONFIG = DEFAULT_CONFIG"
  by (simp add: drop_empty_name_def DEFAULT_CONFIG_def)

lemma loadConfig_without_empty_name:
  "loadConfig (without_empty_name e) p =
     (fst (loadConfig e p), drop_empty_name (snd (loadConfig e p)))"
  by (cases p)
    (simp_all add: loadConfig_def without_empty_name_def Let_def spread_drop_empty_name
       drop_empty_name_DEFAULT split: config_file.splits)

lemma isContainerRunning_without_empty_name:
  "isContainerRunning (without_empty_name e) name = isContainerRunning e name"
  by (simp add: isContainerRunning_def without_empty_name_def)

lemma enforce_without_empty_name:
  "enforce (without_empty_name e) cmd p = enforce e cmd p"
proof (cases "loadConfig e p")
  case (Pair warned config)
  then have l: "loadConfig (without_empty_name e) p = (warned, drop_empty_name config)"
    by (simp add: loadConfig_without_empty_name)
  show ?thesis
  proof (cases "truthy (containerName config)")
    case True
    then show ?thesis
      unfolding enforce_def l Pair
      by (simp add: Let_def drop_empty_name_fields drop_empty_name_uses
            isContainerRunning_without_empty_name)
  next
    case False
    then show ?thesis
      unfolding enforce_def l Pair
      by (simp add: Let_def drop_empty_name_fields drop_empty_name_uses)
  qed
qed

lemma main_without_empty_name:
  "main (without_empty_name e) argv = main e argv"
proof (cases "loadConfig e None")
  case (Pair warned config)
  then have l: "loadConfig (without_empty_name e) None = (warned, drop_empty_name config)"
    by (simp add: loadConfig_without_empty_name)
  show ?thesis
  proof (cases "truthy (containerName config)")
    case True
    then show ?thesis
      unfolding main_def l Pair enforce_without_empty_name
      by (simp add: Let_def drop_empty_name_fields drop_empty_name_uses
            isContainerRunning_without_empty_name)
  next
    case False
    then show ?thesis
      unfolding main_def l Pair enforce_without_empty_name
      by (simp add: Let_def drop_empty_name_fields drop_empty_name_uses)
  qed
qed

text \<open>
  C10: a configuration whose \<open>containerName\<close> is the empty string behaves as the
  same configuration without the field: \<open>enforce\<close> returns the same result and
  writes the same lines, and so does every run of the command line. In the mode
  \<open>transform\<close>, \<open>enforce\<close> returns \<open>block\<close> with the message
  \<open>No container configured\<close> for every command it subjects to the policy (one that is
  intercepted and not allow-listed; it allows the others); \<open>validate\<close> prints
  \<open>ERROR: No container configured\<close> and exits with code 1; \<open>transform\<close> prints
  nothing on standard output, writes an error line and exits with code 1.
\<close>

theorem empty_container_name_as_absent:
  assumes "containerName (snd (loadConfig e p)) = Some []"
  shows
    "containerName (snd (loadConfig (without_empty_name e) p)) = None
   \<and> (\<forall>cmd. enforce e cmd p = enforce (without_empty_name e) cmd p)
   \<and> (\<forall>argv. main e argv = main (without_empty_name e) argv)
   \<and> (\<forall>cmd. enforcement (snd (loadConfig e p)) = Some (js ''transform'')
        \<longrightarrow> snd (enforce e cmd p) =
              (if shouldIntercept cmd (snd (loadConfig e p))
                  \<and> \<not> isAllowed cmd (snd (loadConfig e p))
               then result Block (Some (js ''No container configured'')) None
               else result Allow None None))
   \<and> (p = None \<longrightarrow>
        (\<forall>argv rest. drop 2 argv = js ''validate'' # rest
           \<longrightarrow> stdout (main e argv) = [js ''ERROR: No container configured'']
               \<and> exitCode (main e argv) = 1)
      \<and> (\<forall>argv rest. drop 2 argv = js ''transform'' # rest
           \<longrightarrow> stdout (main e argv) = []
               \<and> stderr (main e argv) =
                   [if join_with (js '' '') rest = []
                    then js ''Usage: enforce.ts transform <command>''
                    else js ''ERROR: No container configured'']
               \<and> exitCode (main e argv) = 1))"
proof -
  have 1: "containerName (snd (loadConfig (without_empty_name e) p)) = None"
    using assms by (simp add: loadConfig_without_empty_name drop_empty_name_def)
  have 2: "\<forall>cmd. enforce e cmd p = enforce (without_empty_name e) cmd p"
    by (simp add: enforce_without_empty_name)
  have 3: "\<forall>argv. main e argv = main (without_empty_name e) argv"
    by (simp add: main_without_empty_name)
  have 4: "snd (enforce e cmd p) =
              (if shouldIntercept cmd (snd (loadConfig e p))
                  \<and> \<not> isAllowed cmd (snd (loadConfig e p))
               then result Block (Some (js ''No container configured'')) None
               else result Allow None None)"
    if h: "enforcement (snd (loadConfig e p)) = Some (js ''transform'')" for cmd
  proof (cases "shouldIntercept cmd (snd (loadConfig e p))
                  \<and> \<not> isAllowed cmd (snd (loadConfig e p))")
    case True
    from h have nd: "enforcement (snd (loadConfig e p)) \<noteq> Some (js ''disabled'')"
      by (simp add: modes_distinct)
    from True have si: "shouldIntercept cmd (snd (loadConfig e p))"
      and na: "\<not> isAllowed cmd (snd (loadConfig e p))" by simp_all
    from h assms True show ?thesis
      unfolding enforce_policy [OF refl nd si na]
      by (simp add: modes_distinct)
  next
    case False
    then show ?thesis
      using enforce_allow [OF refl, of e p cmd] by auto
  qed
  have w: "fst (loadConfig e p) = []"
    using assms by (intro loadConfig_named_no_warning) simp
  have 5: "stdout (main e argv) = [js ''ERROR: No container configured'']
               \<and> exitCode (main e argv) = 1"
    if "p = None" "drop 2 argv = js ''validate'' # rest" for argv rest
    using assms that(1) unfolding main_validate [OF that(2)]
    by (simp add: exit_with_def)
  have 6: "stdout (main e argv) = []
               \<and> stderr (main e argv) =
                   [if join_with (js '' '') rest = []
                    then js ''Usage: enforce.ts transform <command>''
                    else js ''ERROR: No container configured'']
               \<and> exitCode (main e argv) = 1"
    if "p = None" "drop 2 argv = js ''transform'' # rest" for argv rest
    using assms w that(1) unfolding main_transform [OF that(2)]
    by (simp add: exit_with_def)
  from 1 2 3 4 5 6 show ?thesis by blast
qed

theorem empty_container_name_as_absent_witness:
  "containerName (snd (loadConfig
      (example_env (Parsed (file_config (Some []) (js ''transform'') []))
         (Some (js ''dev'' @ [newline]))) None)) = Some []
   \<and> isContainerRunning
      (example_env (Parsed (file_config (Some []) (js ''transform'') []))
         (Some (js ''dev'' @ [newline]))) []
   \<and> action (snd (enforce
      (example_env (Parsed (file_config (Some []) (js ''transform'') []))
         (Some (js ''dev'' @ [newline]))) (js ''npm install express'') None)) = Block
   \<and> message (snd (enforce
      (example_env (Parsed (file_config (Some []) (js ''transform'') []))
         (Some (js ''dev'' @ [newline]))) (js ''npm install express'') None))
       = Some (js ''No container configured'')
   \<and> stdout (main
      (example_env (Parsed (file_config (Some []) (js ''transform'') []))
         (Some (js ''dev'' @ [newline]))) [js ''node'', js ''enforce.ts'', js ''validate''])
       = [js ''ERROR: No container configured'']
   \<and> exitCode (main
      (example_env (Parsed (file_config (Some []) (js ''transform'') []))
         (Some (js ''dev'' @ [newline]))) [js ''node'', js ''enforce.ts'', js ''validate'']) = 1
   \<and> stderr (main
      (example_env (Parsed (file_config (Some []) (js ''transform'') []))
         (Some (js ''dev'' @ [newline])))
      [js ''node'', js ''enforce.ts'', js ''transform'', js ''npm'', js ''test''])
       = [js ''ERROR: No container configured'']
   \<and> exitCode (main
      (example_env (Parsed (file_config (Some []) (js ''transform'') []))
         (Some (js ''dev'' @ [newline])))
      [js ''node'', js ''enforce.ts'', js ''transform'', js ''npm'', js ''test'']) = 1"
proof -
  let ?e = "example_env (Parsed (file_config (Some []) (js ''transform'') []))
         (Some (js ''dev'' @ [newline]))"
  let ?cmd = "js ''npm install express''"
  have h: "containerName (snd (loadConfig ?e None)) = Some []" by code_simp
  have run: "isContainerRunning ?e []" by code_simp
  have m: "enforcement (snd (loadConfig ?e None)) = Some (js ''transform'')
          \<and> shouldIntercept ?cmd (snd (loadConfig ?e None))
          \<and> \<not> isAllowed ?cmd (snd (loadConfig ?e None))" by code_simp
  have v: "drop 2 [js ''node'', js ''enforce.ts'', js ''validate''] = js ''validate'' # []"
    by simp
  have t: "drop 2 [js ''node'', js ''enforce.ts'', js ''transform'', js ''npm'', js ''test'']
      = js ''transform'' # [js ''npm'', js ''test'']" by simp
  have ne: "join_with (js '' '') [js ''npm'', js ''test''] \<noteq> []" by (simp add: js_def)
  note c = empty_container_name_as_absent [OF h]
  from m c [THEN conjunct2, THEN conjunct2, THEN conjunct2, THEN conjunct1, rule_format, of ?cmd]
  have "snd (enforce ?e ?cmd None) =
      result Block (Some (js ''No container configured'')) None"
    by simp
  then have r1: "action (snd (enforce ?e ?cmd None)) = Block
      \<and> message (snd (enforce ?e ?cmd None)) = Some (js ''No container configured'')"
    by (simp add: result_def)
  from c v have r2: "stdout (main ?e [js ''node'', js ''enforce.ts'', js ''validate''])
        = [js ''ERROR: No container configured'']
      \<and> exitCode (main ?e [js ''node'', js ''enforce.ts'', js ''validate'']) = 1"
    by blast
  from c t have "stderr (main ?e
        [js ''node'', js ''enforce.ts'', js ''transform'', js ''npm'', js ''test'']) =
        [if join_with (js '' '') [js ''npm'', js ''test''] = []
         then js ''Usage: enforce.ts transform <command>''
         else js ''ERROR: No container configured'']
      \<and> exitCode (main ?e
        [js ''node'', js ''enforce.ts'', js ''transform'', js ''npm'', js ''test'']) = 1"
    by blast
  with ne have r3: "stderr (main ?e
        [js ''node'', js ''enforce.ts'', js ''transform'', js ''npm'', js ''test''])
        = [js ''ERROR: No container configured'']
      \<and> exitCode (main ?e
        [js ''node'', js ''enforce.ts'', js ''transform'', js ''npm'', js ''test'']) = 1"
    by (simp add: js_def)
  from h run r1 r2 r3 show ?thesis by blast
qed

end
